theory Spec2Isabelle
  imports Main "HOL-Library.Word"
begin

section \<open>Host values\<close>

text \<open>
  The adapters receive arbitrary Python values from the host framework. The values the
  code distinguishes are modelled as a datatype: \<open>None\<close>, the four primitive scalar
  types, the three container types the serializer tests for, and a reference to a host
  object. A float is carried as its 64-bit pattern: the code never computes with one, it
  only passes it on. A dictionary is the list of its items in insertion order, with
  string keys as the annotations \<open>Dict[str, Any]\<close> of the source say. Objects live in a
  heap, so that an attribute bag may refer back to the object that owns it.
\<close>

datatype pyval =
    PNone
  | PBool bool
  | PInt int
  | PFloat "64 word"
  | PStr string
  | PList "pyval list"
  | PTuple "pyval list"
  | PDict "(string \<times> pyval) list"
  | PRef nat

text \<open>
  Exceptions the modelled code can meet. All of them are subclasses of Python's
  \<open>Exception\<close>; \<open>HostError\<close> stands for any exception raised by host code or by the
  HTTP library (connection failure, timeout, status error, undecodable body).
\<close>

datatype exn = TypeError | AttributeError | HostError string

text \<open>
  What a call does: it returns a value, raises, or exhausts the budget of nested calls
  it was given. The budget is how unbounded recursion is made visible: a call that
  exhausts every budget does not return (CPython aborts it with \<open>RecursionError\<close>).
\<close>

datatype 'a outcome = Returns 'a | Raises exn | OutOfFuel

text \<open>
  A host object, as far as the code can observe it:
  \<^item> \<open>attrs\<close>: the attributes \<open>getattr\<close> finds (other than the two below), each with
  what reading it does: it gives a value, or, being a property or coming from
  \<open>__getattr__\<close>, it raises an exception. An attribute whose reading raises
  \<open>AttributeError\<close> is, for \<open>getattr\<close> with a default, one the object does not have;
  \<^item> \<open>export\<close>: \<open>None\<close> when \<open>hasattr(obj, "dict")\<close> is false, otherwise what
  \<open>obj.dict()\<close> does (it raises, for instance \<open>TypeError\<close> when the attribute is not
  callable, or it returns a value);
  \<^item> \<open>bag\<close>: \<open>obj.__dict__\<close> when \<open>hasattr(obj, "__dict__")\<close>;
  \<^item> \<open>display\<close>: what \<open>str(obj)\<close> does;
  \<^item> \<open>truth\<close>: what \<open>bool(obj)\<close> does.
\<close>

record pyobj =
  attrs :: "(string \<times> (exn + pyval)) list"
  export :: "(exn + pyval) option"
  bag :: "(string \<times> pyval) list option"
  display :: "exn + string"
  truth :: "exn + bool"

type_synonym heap = "nat \<Rightarrow> pyobj"

section \<open>The generic serializer\<close>

text \<open>
  A comprehension evaluates its elements from left to right; the first one that does
  not return ends it.
\<close>

fun sequence :: "'a outcome list \<Rightarrow> 'a list outcome" where
  "sequence [] = Returns []"
| "sequence (Returns v # rs) =
     (case sequence rs of
        Returns vs \<Rightarrow> Returns (v # vs)
      | Raises e \<Rightarrow> Raises e
      | OutOfFuel \<Rightarrow> OutOfFuel)"
| "sequence (Raises e # rs) = Raises e"
| "sequence (OutOfFuel # rs) = OutOfFuel"

text \<open>
  \<^verbatim>\<open>
  def _serialize(self, obj: Any) -> Any:
      if obj is None:
          return None
      if isinstance(obj, (str, int, float, bool)):
          return obj
      if isinstance(obj, dict):
          return {k: self._serialize(v) for k, v in obj.items()}
      if isinstance(obj, (list, tuple)):
          return [self._serialize(v) for v in obj]
      if hasattr(obj, "dict"):
          return self._serialize(obj.dict())
      if hasattr(obj, "__dict__"):
          return self._serialize(obj.__dict__)
      return str(obj)
  \<close>
  The same function stands in all three adapters. The first argument after the heap is
  the number of nested calls still allowed.
\<close>

fun serialize :: "heap \<Rightarrow> nat \<Rightarrow> pyval \<Rightarrow> pyval outcome" where
  "serialize h 0 obj = OutOfFuel"
| "serialize h (Suc n) PNone = Returns PNone"
| "serialize h (Suc n) (PStr s) = Returns (PStr s)"
| "serialize h (Suc n) (PInt i) = Returns (PInt i)"
| "serialize h (Suc n) (PFloat w) = Returns (PFloat w)"
| "serialize h (Suc n) (PBool b) = Returns (PBool b)"
| "serialize h (Suc n) (PDict kvs) =
     (case sequence (map (\<lambda>kv. serialize h n (snd kv)) kvs) of
        Returns vs \<Rightarrow> Returns (PDict (zip (map fst kvs) vs))
      | Raises e \<Rightarrow> Raises e
      | OutOfFuel \<Rightarrow> OutOfFuel)"
| "serialize h (Suc n) (PList xs) =
     (case sequence (map (serialize h n) xs) of
        Returns vs \<Rightarrow> Returns (PList vs)
      | Raises e \<Rightarrow> Raises e
      | OutOfFuel \<Rightarrow> OutOfFuel)"
| "serialize h (Suc n) (PTuple xs) =
     (case sequence (map (serialize h n) xs) of
        Returns vs \<Rightarrow> Returns (PList vs)
      | Raises e \<Rightarrow> Raises e
      | OutOfFuel \<Rightarrow> OutOfFuel)"
| "serialize h (Suc n) (PRef a) =
     (case export (h a) of
        Some (Inr d) \<Rightarrow> serialize h n d
      | Some (Inl e) \<Rightarrow> Raises e
      | None \<Rightarrow>
          (case bag (h a) of
             Some kvs \<Rightarrow> serialize h n (PDict kvs)
           | None \<Rightarrow>
               (case display (h a) of
                  Inl e \<Rightarrow> Raises e
                | Inr s \<Rightarrow> Returns (PStr s))))"

text \<open>
  A JSON-safe value is built only from \<open>None\<close>, strings, integers, floats, booleans,
  lists and (string-keyed) mappings of such values. Its depth is the number of nested
  serializer calls it needs.
\<close>

fun json_safe :: "pyval \<Rightarrow> bool" where
  "json_safe PNone = True"
| "json_safe (PBool b) = True"
| "json_safe (PInt i) = True"
| "json_safe (PFloat w) = True"
| "json_safe (PStr s) = True"
| "json_safe (PList xs) = list_all json_safe xs"
| "json_safe (PTuple xs) = False"
| "json_safe (PDict kvs) = list_all (\<lambda>kv. json_safe (snd kv)) kvs"
| "json_safe (PRef a) = False"

fun depth :: "pyval \<Rightarrow> nat" where
  "depth (PList xs) = Suc (fold max (map depth xs) 0)"
| "depth (PTuple xs) = Suc (fold max (map depth xs) 0)"
| "depth (PDict kvs) = Suc (fold max (map (\<lambda>kv. depth (snd kv)) kvs) 0)"
| "depth v = 1"

section \<open>Dictionaries and built-in operations\<close>

type_synonym dict = "(string \<times> pyval) list"

text \<open>
  \<open>d[k] = v\<close>: an existing key keeps its place and takes the new value, a new key is
  appended. \<open>{**d, **e}\<close> stores the items of \<open>e\<close> one by one into a copy of \<open>d\<close>.
  \<open>d.get(k, default)\<close> and \<open>d.pop(k, None)\<close> are the look-ups the code uses.
\<close>

fun dict_set :: "('k \<times> 'v) list \<Rightarrow> 'k \<Rightarrow> 'v \<Rightarrow> ('k \<times> 'v) list" where
  "dict_set [] k v = [(k, v)]"
| "dict_set (kv # kvs) k v =
     (if fst kv = k then (k, v) # kvs else kv # dict_set kvs k v)"

definition dict_merge :: "('k \<times> 'v) list \<Rightarrow> ('k \<times> 'v) list \<Rightarrow> ('k \<times> 'v) list" where
  "dict_merge d e = fold (\<lambda>kv acc. dict_set acc (fst kv) (snd kv)) e d"

definition dict_get :: "('k \<times> 'v) list \<Rightarrow> 'k \<Rightarrow> 'v \<Rightarrow> 'v" where
  "dict_get d k dflt = (case map_of d k of Some v \<Rightarrow> v | None \<Rightarrow> dflt)"

definition dict_pop :: "(string \<times> pyval) list \<Rightarrow> string \<Rightarrow> pyval \<times> (string \<times> pyval) list" where
  "dict_pop d k = (dict_get d k PNone, filter (\<lambda>kv. fst kv \<noteq> k) d)"

text \<open>
  Truth value testing (\<open>if decision_id:\<close>, \<open>if result:\<close>, \<open>if output\<close>). For the values
  that JSON decoding produces it cannot fail. An object is true unless its class says
  otherwise, which \<open>py_bool\<close> asks the heap. Both zeros of a float are false.
\<close>

fun truthy :: "pyval \<Rightarrow> bool" where
  "truthy PNone = False"
| "truthy (PBool b) = b"
| "truthy (PInt i) = (i \<noteq> 0)"
| "truthy (PFloat w) = (w \<noteq> 0 \<and> w \<noteq> 2 ^ 63)"
| "truthy (PStr s) = (s \<noteq> [])"
| "truthy (PList xs) = (xs \<noteq> [])"
| "truthy (PTuple xs) = (xs \<noteq> [])"
| "truthy (PDict kvs) = (kvs \<noteq> [])"
| "truthy (PRef a) = True"

definition py_bool :: "heap \<Rightarrow> pyval \<Rightarrow> bool outcome" where
  "py_bool h v =
     (case v of
        PRef a \<Rightarrow> (case truth (h a) of Inl e \<Rightarrow> Raises e | Inr b \<Rightarrow> Returns b)
      | _ \<Rightarrow> Returns (truthy v))"

text \<open>
  \<open>v[:n]\<close>. Strings, lists and tuples can be sliced; \<open>None\<close>, numbers, booleans and
  dictionaries cannot, nor can an object without \<open>__getitem__\<close> (the only objects
  modelled). Python reports the failure as \<open>TypeError\<close> (for a dictionary, from
  version 3.12 on, as \<open>KeyError\<close>; the model does not tell the two apart).
\<close>

fun py_slice :: "nat \<Rightarrow> pyval \<Rightarrow> pyval outcome" where
  "py_slice n (PStr s) = Returns (PStr (take n s))"
| "py_slice n (PList xs) = Returns (PList (take n xs))"
| "py_slice n (PTuple xs) = Returns (PTuple (take n xs))"
| "py_slice n v = Raises TypeError"

text \<open>
  The host: its objects, the identity \<open>id(v)\<close> of a value, and the text \<open>str(v)\<close> of a
  value that is neither a string nor an object (Python's formatting of numbers and
  containers is not reproduced; it is a parameter).
\<close>

record host =
  objects :: heap
  ident :: "pyval \<Rightarrow> nat"
  render :: "pyval \<Rightarrow> string"

definition py_str :: "host \<Rightarrow> pyval \<Rightarrow> string outcome" where
  "py_str H v =
     (case v of
        PStr s \<Rightarrow> Returns s
      | PRef a \<Rightarrow> (case display (objects H a) of Inl e \<Rightarrow> Raises e | Inr s \<Rightarrow> Returns s)
      | _ \<Rightarrow> Returns (render H v))"

text \<open>
  \<open>getattr(v, name, default)\<close> gives the default only where the attribute is missing
  (the reading raises \<open>AttributeError\<close>); any other exception raised by reading the
  attribute leaves \<open>getattr\<close>. The values that are not objects have none of the
  attributes the hooks ask for (\<open>role\<close>, \<open>goal\<close>, \<open>description\<close>, \<open>expected_output\<close>).
\<close>

definition getattr_default :: "heap \<Rightarrow> pyval \<Rightarrow> string \<Rightarrow> pyval \<Rightarrow> pyval outcome" where
  "getattr_default h v name dflt =
     (case v of
        PRef a \<Rightarrow>
          (case map_of (attrs (h a)) name of
             Some (Inr x) \<Rightarrow> Returns x
           | Some (Inl e) \<Rightarrow> if e = AttributeError then Returns dflt else Raises e
           | None \<Rightarrow> Returns dflt)
      | _ \<Rightarrow> Returns dflt)"

text \<open>\<open>str(n)\<close> of a natural number: its decimal digits.\<close>

function str_nat :: "nat \<Rightarrow> string" where
  "str_nat n =
     (if n < 10 then [char_of (48 + n)]
      else str_nat (n div 10) @ [char_of (48 + n mod 10)])"
  by pat_completeness auto
termination
  by (relation "measure id") auto

declare str_nat.simps [simp del]

section \<open>The decision lifecycle client\<close>

text \<open>
  The two requests the client makes are \<open>POST /v1/decisions\<close> with a JSON body, and
  \<open>POST /v1/decisions/{decision_id}/transition\<close> with a JSON body. A response is
  observed through \<open>raise_for_status()\<close> (which raises or not) and \<open>json()\<close> (which
  raises or gives the decoded body). A log line records which of the two
  \<open>logger.error\<close> calls was made, and with which exception.
\<close>

datatype request = CreateDecision pyval | Transition pyval pyval

datatype response = Response (status_error: "exn option") (json_body: "exn + pyval")

datatype log_line = LogDecisionFailed exn | TransitionFailed pyval exn

text \<open>
  The environment of one adapter instance: what \<open>self._client.post\<close> does, given every
  request made so far (the last one being the current request), and what
  \<open>datetime.utcnow().isoformat()\<close> gives after that many requests.
\<close>

record env =
  transport :: "request list \<Rightarrow> exn + response"
  utcnow :: "nat \<Rightarrow> string"

text \<open>
  One adapter instance (\<open>self\<close>) together with what it has done to the outside: the
  requests it has made and the lines it has logged, oldest first.
\<close>

record core =
  agent_id :: string
  auto_approve :: bool
  log_tool_calls :: bool
  metadata :: dict
  active_decisions :: dict
  sent :: "request list"
  logged :: "log_line list"

text \<open>
  The three copies of the client differ in the source tag they put into the context
  and in the context key under which they record the reference passed by the hook
  (\<open>reference_id\<close> in the CrewAI observer, \<open>run_id\<close> in the LangChain callback, none in
  the LangChain v1 middleware client).
\<close>

datatype adapter = CrewAI | LangChain | LangChainV1

fun source_tag :: "adapter \<Rightarrow> string" where
  "source_tag CrewAI = ''crewai''"
| "source_tag LangChain = ''langchain''"
| "source_tag LangChainV1 = ''langchain-v1''"

fun reference_key :: "adapter \<Rightarrow> string option" where
  "reference_key CrewAI = Some ''reference_id''"
| "reference_key LangChain = Some ''run_id''"
| "reference_key LangChainV1 = None"

text \<open>Sequencing of calls that may raise: the first one that does not return ends the hook.\<close>

definition pure_then :: "'a outcome \<Rightarrow> 's \<Rightarrow> ('a \<Rightarrow> 'b outcome \<times> 's) \<Rightarrow> 'b outcome \<times> 's" where
  "pure_then r s k =
     (case r of Returns v \<Rightarrow> k v | Raises e \<Rightarrow> (Raises e, s) | OutOfFuel \<Rightarrow> (OutOfFuel, s))"

definition and_then :: "'a outcome \<times> 's \<Rightarrow> ('a \<Rightarrow> 's \<Rightarrow> 'b outcome \<times> 's) \<Rightarrow> 'b outcome \<times> 's" where
  "and_then m k =
     (case m of
        (Returns v, s) \<Rightarrow> k v s
      | (Raises e, s) \<Rightarrow> (Raises e, s)
      | (OutOfFuel, s) \<Rightarrow> (OutOfFuel, s))"

text \<open>\<open>try: ... except Exception as e: ...\<close> around a block.\<close>

definition except_exception ::
  "'a outcome \<times> 's \<Rightarrow> (exn \<Rightarrow> 's \<Rightarrow> 'a outcome \<times> 's) \<Rightarrow> 'a outcome \<times> 's" where
  "except_exception m handler =
     (case m of
        (Raises e, s) \<Rightarrow> handler e s
      | (Returns v, s) \<Rightarrow> (Returns v, s)
      | (OutOfFuel, s) \<Rightarrow> (OutOfFuel, s))"

definition post :: "env \<Rightarrow> request \<Rightarrow> core \<Rightarrow> response outcome \<times> core" where
  "post E req s =
     (let s' = s\<lparr>sent := sent s @ [req]\<rparr>
      in case transport E (sent s') of
           Inl e \<Rightarrow> (Raises e, s')
         | Inr resp \<Rightarrow> (Returns resp, s'))"

definition raise_for_status :: "response \<Rightarrow> 's \<Rightarrow> unit outcome \<times> 's" where
  "raise_for_status resp s =
     (case status_error resp of Some e \<Rightarrow> (Raises e, s) | None \<Rightarrow> (Returns (), s))"

text \<open>
  \<^verbatim>\<open>
  def _transition_decision(self, decision_id, status, result=None):
      try:
          payload = {"status": status}
          if result:
              payload["result"] = result
          response = self._client.post(
              f"/v1/decisions/{decision_id}/transition", json=payload)
          response.raise_for_status()
      except Exception as e:
          logger.error(f"Failed to transition decision {decision_id}: {e}")
  \<close>
\<close>

definition transition_payload :: "string \<Rightarrow> dict option \<Rightarrow> pyval" where
  "transition_payload status result =
     (case result of
        Some r \<Rightarrow>
          if r \<noteq> [] then PDict (dict_set [(''status'', PStr status)] ''result'' (PDict r))
          else PDict [(''status'', PStr status)]
      | None \<Rightarrow> PDict [(''status'', PStr status)])"

definition transition_decision_try ::
  "env \<Rightarrow> pyval \<Rightarrow> string \<Rightarrow> dict option \<Rightarrow> core \<Rightarrow> unit outcome \<times> core" where
  "transition_decision_try E decision_id status result s =
     and_then (post E (Transition decision_id (transition_payload status result)) s)
       raise_for_status"

definition transition_decision ::
  "env \<Rightarrow> pyval \<Rightarrow> string \<Rightarrow> dict option \<Rightarrow> core \<Rightarrow> unit outcome \<times> core" where
  "transition_decision E decision_id status result s =
     except_exception (transition_decision_try E decision_id status result s)
       (\<lambda>e s'. (Returns (), s'\<lparr>logged := logged s' @ [TransitionFailed decision_id e]\<rparr>))"

text \<open>
  \<^verbatim>\<open>
  def _log_decision(self, decision_type, action, context, reference_id=None):
      try:
          payload = {
              "agent_id": self.crew_id,
              "type": decision_type,
              "action": action,
              "status": "proposed",
              "context": {
                  **context,
                  **self.metadata,
                  "timestamp": datetime.utcnow().isoformat(),
                  "source": "crewai",
              },
          }
          if reference_id:
              payload["context"]["reference_id"] = reference_id
          response = self._client.post("/v1/decisions", json=payload)
          response.raise_for_status()
          decision = response.json()
          decision_id = decision.get("id")
          if self.auto_approve and decision_id:
              self._transition_decision(decision_id, "approved")
          return decision_id
      except Exception as e:
          logger.error(f"Failed to log decision to ContextGraph: {e}")
          return None
  \<close>
  \<open>decision.get\<close> exists only when the decoded body is a dictionary; on any other JSON
  value the attribute access raises \<open>AttributeError\<close>.
\<close>

definition merged_context :: "adapter \<Rightarrow> dict \<Rightarrow> dict \<Rightarrow> string \<Rightarrow> dict" where
  "merged_context A context md timestamp =
     dict_set (dict_set (dict_merge (dict_merge [] context) md)
       ''timestamp'' (PStr timestamp)) ''source'' (PStr (source_tag A))"

definition payload_context ::
  "adapter \<Rightarrow> dict \<Rightarrow> dict \<Rightarrow> string \<Rightarrow> string option \<Rightarrow> dict" where
  "payload_context A context md timestamp reference_id =
     (case (reference_key A, reference_id) of
        (Some key, Some r) \<Rightarrow>
          if r \<noteq> [] then dict_set (merged_context A context md timestamp) key (PStr r)
          else merged_context A context md timestamp
      | _ \<Rightarrow> merged_context A context md timestamp)"

definition decision_payload ::
  "env \<Rightarrow> adapter \<Rightarrow> string \<Rightarrow> pyval \<Rightarrow> dict \<Rightarrow> string option \<Rightarrow> core \<Rightarrow> pyval" where
  "decision_payload E A decision_type action context reference_id s =
     PDict [(''agent_id'', PStr (agent_id s)),
            (''type'', PStr decision_type),
            (''action'', action),
            (''status'', PStr ''proposed''),
            (''context'', PDict (payload_context A context (metadata s)
               (utcnow E (length (sent s))) reference_id))]"

definition decision_get_id :: "pyval \<Rightarrow> 's \<Rightarrow> pyval outcome \<times> 's" where
  "decision_get_id decision s =
     (case decision of
        PDict kvs \<Rightarrow> (Returns (dict_get kvs ''id'' PNone), s)
      | _ \<Rightarrow> (Raises AttributeError, s))"

definition response_json :: "response \<Rightarrow> 's \<Rightarrow> pyval outcome \<times> 's" where
  "response_json resp s =
     (case json_body resp of Inl e \<Rightarrow> (Raises e, s) | Inr v \<Rightarrow> (Returns v, s))"

definition log_decision_try ::
  "env \<Rightarrow> adapter \<Rightarrow> string \<Rightarrow> pyval \<Rightarrow> dict \<Rightarrow> string option \<Rightarrow> core \<Rightarrow> pyval outcome \<times> core" where
  "log_decision_try E A decision_type action context reference_id s =
     and_then (post E (CreateDecision
         (decision_payload E A decision_type action context reference_id s)) s)
       (\<lambda>resp s1. and_then (raise_for_status resp s1)
       (\<lambda>_ s2. and_then (response_json resp s2)
       (\<lambda>decision s3. and_then (decision_get_id decision s3)
       (\<lambda>decision_id s4.
          if auto_approve s4 \<and> truthy decision_id
          then and_then (transition_decision E decision_id ''approved'' None s4)
                 (\<lambda>_ s5. (Returns decision_id, s5))
          else (Returns decision_id, s4)))))"

definition log_decision ::
  "env \<Rightarrow> adapter \<Rightarrow> string \<Rightarrow> pyval \<Rightarrow> dict \<Rightarrow> string option \<Rightarrow> core \<Rightarrow> pyval outcome \<times> core" where
  "log_decision E A decision_type action context reference_id s =
     except_exception (log_decision_try E A decision_type action context reference_id s)
       (\<lambda>e s'. (Returns PNone, s'\<lparr>logged := logged s' @ [LogDecisionFailed e]\<rparr>))"

section \<open>Hooks of the CrewAI observer\<close>

text \<open>
  A hook returns nothing; what matters is whether it returns at all and what it leaves
  behind. Where a hook calls the serializer, the number after the host is the budget of
  nested serializer calls.

  \<^verbatim>\<open>
  def on_task_start(self, task, agent):
      task_id = str(id(task))
      agent_name = getattr(agent, "role", "unknown_agent")
      decision_id = self._log_decision(
          decision_type="task_execution", action="execute_task",
          context={
              "task_description": getattr(task, "description", "")[:500],
              "expected_output": getattr(task, "expected_output", "")[:500],
              "agent_name": agent_name,
              "agent_goal": getattr(agent, "goal", None),
          },
          reference_id=task_id)
      if decision_id:
          self._active_decisions[task_id] = decision_id
  \<close>
\<close>

definition store_decision :: "string \<Rightarrow> pyval \<Rightarrow> core \<Rightarrow> unit outcome \<times> core" where
  "store_decision key decision_id s =
     (if truthy decision_id
      then (Returns (), s\<lparr>active_decisions := dict_set (active_decisions s) key decision_id\<rparr>)
      else (Returns (), s))"

definition on_task_start :: "env \<Rightarrow> host \<Rightarrow> pyval \<Rightarrow> pyval \<Rightarrow> core \<Rightarrow> unit outcome \<times> core" where
  "on_task_start E H task agent s =
     (let task_id = str_nat (ident H task)
      in pure_then (getattr_default (objects H) agent ''role'' (PStr ''unknown_agent'')) s
      (\<lambda>agent_name.
         pure_then (getattr_default (objects H) task ''description'' (PStr [])) s
      (\<lambda>description.
         pure_then (py_slice 500 description) s
      (\<lambda>task_description.
         pure_then (getattr_default (objects H) task ''expected_output'' (PStr [])) s
      (\<lambda>expected.
         pure_then (py_slice 500 expected) s
      (\<lambda>expected_output.
         pure_then (getattr_default (objects H) agent ''goal'' PNone) s
      (\<lambda>agent_goal.
         and_then (log_decision E CrewAI ''task_execution'' (PStr ''execute_task'')
            [(''task_description'', task_description),
             (''expected_output'', expected_output),
             (''agent_name'', agent_name),
             (''agent_goal'', agent_goal)]
            (Some task_id) s)
           (store_decision task_id))))))))"

text \<open>
  \<^verbatim>\<open>
  def on_task_end(self, task, output):
      task_id = str(id(task))
      decision_id = self._active_decisions.pop(task_id, None)
      if decision_id:
          self._transition_decision(decision_id, "executed",
              result={"output": str(output)[:5000] if output else None})

  def on_task_error(self, task, error):
      task_id = str(id(task))
      decision_id = self._active_decisions.pop(task_id, None)
      if decision_id:
          self._transition_decision(decision_id, "failed",
              result={"error": str(error)})
  \<close>
\<close>

definition take_decision :: "string \<Rightarrow> core \<Rightarrow> pyval \<times> core" where
  "take_decision key s =
     (fst (dict_pop (active_decisions s) key),
      s\<lparr>active_decisions := snd (dict_pop (active_decisions s) key)\<rparr>)"

definition capped_text :: "host \<Rightarrow> nat \<Rightarrow> pyval \<Rightarrow> pyval outcome" where
  "capped_text H n output =
     (case py_bool (objects H) output of
        Returns b \<Rightarrow>
          if b then
            (case py_str H output of
               Returns t \<Rightarrow> Returns (PStr (take n t))
             | Raises e \<Rightarrow> Raises e
             | OutOfFuel \<Rightarrow> OutOfFuel)
          else Returns PNone
      | Raises e \<Rightarrow> Raises e
      | OutOfFuel \<Rightarrow> OutOfFuel)"

definition on_task_end :: "env \<Rightarrow> host \<Rightarrow> pyval \<Rightarrow> pyval \<Rightarrow> core \<Rightarrow> unit outcome \<times> core" where
  "on_task_end E H task output s =
     (let task_id = str_nat (ident H task);
          (decision_id, s0) = take_decision task_id s
      in if truthy decision_id
         then pure_then (capped_text H 5000 output) s0
                (\<lambda>out. transition_decision E decision_id ''executed'' (Some [(''output'', out)]) s0)
         else (Returns (), s0))"

definition on_task_error :: "env \<Rightarrow> host \<Rightarrow> pyval \<Rightarrow> pyval \<Rightarrow> core \<Rightarrow> unit outcome \<times> core" where
  "on_task_error E H task error s =
     (let task_id = str_nat (ident H task);
          (decision_id, s0) = take_decision task_id s
      in if truthy decision_id
         then pure_then (py_str H error) s0
                (\<lambda>msg. transition_decision E decision_id ''failed'' (Some [(''error'', PStr msg)]) s0)
         else (Returns (), s0))"

text \<open>
  \<^verbatim>\<open>
  def on_tool_use(self, agent, tool_name, tool_input, tool_output):
      if not self.log_tool_calls:
          return
      agent_name = getattr(agent, "role", "unknown_agent")
      decision_id = self._log_decision(
          decision_type="tool_usage", action=tool_name,
          context={
              "agent_name": agent_name,
              "tool_name": tool_name,
              "tool_input": self._serialize(tool_input),
              "tool_output": self._serialize(tool_output)[:2000],
          })
      # Tool calls are instantaneous, so immediately mark as executed
      if decision_id:
          self._transition_decision(decision_id, "executed")
  \<close>
\<close>

definition on_tool_use ::
  "env \<Rightarrow> host \<Rightarrow> nat \<Rightarrow> pyval \<Rightarrow> string \<Rightarrow> pyval \<Rightarrow> pyval \<Rightarrow> core \<Rightarrow> unit outcome \<times> core" where
  "on_tool_use E H n agent tool_name tool_input tool_output s =
     (if \<not> log_tool_calls s then (Returns (), s)
      else
        pure_then (getattr_default (objects H) agent ''role'' (PStr ''unknown_agent'')) s
        (\<lambda>agent_name. pure_then (serialize (objects H) n tool_input) s
        (\<lambda>input'. pure_then (serialize (objects H) n tool_output) s
        (\<lambda>output'. pure_then (py_slice 2000 output') s
        (\<lambda>output''.
           and_then (log_decision E CrewAI ''tool_usage'' (PStr tool_name)
              [(''agent_name'', agent_name),
               (''tool_name'', PStr tool_name),
               (''tool_input'', input'),
               (''tool_output'', output'')]
              None s)
             (\<lambda>decision_id s1.
                if truthy decision_id
                then transition_decision E decision_id ''executed'' None s1
                else (Returns (), s1)))))))"

section \<open>Hooks of the LangChain callback handler\<close>

text \<open>
  The run identifier is passed as the string \<open>str(run_id)\<close>. An \<open>AgentAction\<close> is the
  record of its three fields.

  \<^verbatim>\<open>
  def on_agent_action(self, action, *, run_id, parent_run_id=None, **kwargs):
      decision_id = self._log_decision(
          decision_type="tool_invocation", action=action.tool,
          context={
              "tool": action.tool,
              "tool_input": self._serialize(action.tool_input),
              "reasoning": action.log,
          },
          run_id=str(run_id))
      if decision_id:
          self._run_decisions[str(run_id)] = decision_id

  def on_tool_start(self, serialized, input_str, *, run_id, parent_run_id=None,
                    tags=None, metadata=None, inputs=None, **kwargs):
      tool_name = serialized.get("name", "unknown_tool")
      decision_id = self._log_decision(
          decision_type="tool_execution", action=tool_name,
          context={
              "tool": tool_name,
              "input": input_str,
              "inputs": self._serialize(inputs),
              "tags": tags,
              "metadata": metadata,
          },
          run_id=str(run_id))
      if decision_id:
          self._run_decisions[str(run_id)] = decision_id

  def on_tool_end(self, output, *, run_id, parent_run_id=None, **kwargs):
      decision_id = self._run_decisions.pop(str(run_id), None)
      if decision_id:
          self._transition_decision(decision_id, "executed", result={"output": output})

  def on_tool_error(self, error, *, run_id, parent_run_id=None, **kwargs):
      decision_id = self._run_decisions.pop(str(run_id), None)
      if decision_id:
          self._transition_decision(decision_id, "failed", result={"error": str(error)})
  \<close>
\<close>

record agent_action =
  tool :: string
  tool_input :: pyval
  log :: string

definition on_agent_action ::
  "env \<Rightarrow> host \<Rightarrow> nat \<Rightarrow> agent_action \<Rightarrow> string \<Rightarrow> core \<Rightarrow> unit outcome \<times> core" where
  "on_agent_action E H n action run_id s =
     pure_then (serialize (objects H) n (tool_input action)) s
       (\<lambda>input'.
          and_then (log_decision E LangChain ''tool_invocation'' (PStr (tool action))
             [(''tool'', PStr (tool action)),
              (''tool_input'', input'),
              (''reasoning'', PStr (log action))]
             (Some run_id) s)
            (store_decision run_id))"

definition on_tool_start ::
  "env \<Rightarrow> host \<Rightarrow> nat \<Rightarrow> dict \<Rightarrow> string \<Rightarrow> string \<Rightarrow> pyval \<Rightarrow> pyval \<Rightarrow> pyval \<Rightarrow> core
     \<Rightarrow> unit outcome \<times> core" where
  "on_tool_start E H n serialized input_str run_id tags md inputs s =
     (let tool_name = dict_get serialized ''name'' (PStr ''unknown_tool'')
      in pure_then (serialize (objects H) n inputs) s
        (\<lambda>inputs'.
           and_then (log_decision E LangChain ''tool_execution'' tool_name
              [(''tool'', tool_name),
               (''input'', PStr input_str),
               (''inputs'', inputs'),
               (''tags'', tags),
               (''metadata'', md)]
              (Some run_id) s)
             (store_decision run_id)))"

definition on_tool_end :: "env \<Rightarrow> pyval \<Rightarrow> string \<Rightarrow> core \<Rightarrow> unit outcome \<times> core" where
  "on_tool_end E output run_id s =
     (let (decision_id, s0) = take_decision run_id s
      in if truthy decision_id
         then transition_decision E decision_id ''executed'' (Some [(''output'', output)]) s0
         else (Returns (), s0))"

definition on_tool_error :: "env \<Rightarrow> host \<Rightarrow> pyval \<Rightarrow> string \<Rightarrow> core \<Rightarrow> unit outcome \<times> core" where
  "on_tool_error E H error run_id s =
     (let (decision_id, s0) = take_decision run_id s
      in if truthy decision_id
         then pure_then (py_str H error) s0
                (\<lambda>msg. transition_decision E decision_id ''failed'' (Some [(''error'', PStr msg)]) s0)
         else (Returns (), s0))"

section \<open>Object graphs\<close>





section \<open>Example hosts and remote stores\<close>

text \<open>
  An object with no attributes, no export and no attribute bag; a heap of such objects;
  a heap whose object 0 has an attribute bag that holds the object itself
  (\<open>obj.me = obj\<close>); a heap whose objects have a \<open>dict\<close> attribute that cannot be called;
  a chain in which the bag of object \<open>a + 1\<close> holds object \<open>a\<close>; and a heap whose
  objects have a \<open>role\<close> property that raises.
\<close>

definition plain_object :: pyobj where
  "plain_object =
     \<lparr>attrs = [], export = None, bag = None, display = Inr ''<object>'', truth = Inr True\<rparr>"

definition plain_heap :: heap where
  "plain_heap = (\<lambda>a. plain_object)"

definition self_heap :: heap where
  "self_heap = (\<lambda>a. if a = 0 then plain_object\<lparr>bag := Some [(''me'', PRef 0)]\<rparr> else plain_object)"

definition uncallable_heap :: heap where
  "uncallable_heap = (\<lambda>a. plain_object\<lparr>export := Some (Inl TypeError)\<rparr>)"

definition chain_heap :: heap where
  "chain_heap =
     (\<lambda>a. if a = 0 then plain_object else plain_object\<lparr>bag := Some [(''next'', PRef (a - 1))]\<rparr>)"

definition moody_heap :: heap where
  "moody_heap =
     (\<lambda>a. plain_object\<lparr>attrs := [(''role'', Inl (HostError ''role is not available''))]\<rparr>)"

section \<open>Reading the remote store's answer\<close>

text \<open>
  What the outcome of a request means for the client. A creation request fails when the
  transport raises, when \<open>raise_for_status\<close> raises, when the body cannot be decoded, or
  when the decoded body is not a dictionary; otherwise the decision id is the body's
  \<open>id\<close> entry, or \<open>None\<close> when it has none. A transition request fails when the
  transport or \<open>raise_for_status\<close> raises.
\<close>

definition create_failure :: "exn + response \<Rightarrow> exn option" where
  "create_failure out =
     (case out of
        Inl e \<Rightarrow> Some e
      | Inr resp \<Rightarrow>
          (case status_error resp of
             Some e \<Rightarrow> Some e
           | None \<Rightarrow>
               (case json_body resp of
                  Inl e \<Rightarrow> Some e
                | Inr (PDict kvs) \<Rightarrow> None
                | Inr _ \<Rightarrow> Some AttributeError)))"

definition assigned_id :: "exn + response \<Rightarrow> pyval" where
  "assigned_id out =
     (case out of
        Inr resp \<Rightarrow>
          (case json_body resp of
             Inr (PDict kvs) \<Rightarrow> dict_get kvs ''id'' PNone
           | _ \<Rightarrow> PNone)
      | Inl e \<Rightarrow> PNone)"

definition transition_failure :: "exn + response \<Rightarrow> exn option" where
  "transition_failure out =
     (case out of Inl e \<Rightarrow> Some e | Inr resp \<Rightarrow> status_error resp)"

text \<open>
  Example environments: a remote store that cannot be reached; one that accepts every
  request and answers a creation with the given id; and one that creates decisions but
  refuses every transition. An adapter instance that has done nothing yet, and a host
  whose objects are all plain.
\<close>

definition unreachable :: env where
  "unreachable =
     \<lparr>transport = (\<lambda>reqs. Inl (HostError ''connection refused'')),
      utcnow = (\<lambda>n. ''2024-01-01T00:00:00'')\<rparr>"

definition accepting :: "pyval \<Rightarrow> env" where
  "accepting d =
     \<lparr>transport = (\<lambda>reqs. Inr (Response None (Inr (PDict [(''id'', d)])))),
      utcnow = (\<lambda>n. ''2024-01-01T00:00:00'')\<rparr>"

definition refusing_transitions :: "pyval \<Rightarrow> env" where
  "refusing_transitions d =
     \<lparr>transport = (\<lambda>reqs.
        case last reqs of
          CreateDecision p \<Rightarrow> Inr (Response None (Inr (PDict [(''id'', d)])))
        | Transition i p \<Rightarrow> Inl (HostError ''timeout'')),
      utcnow = (\<lambda>n. ''2024-01-01T00:00:00'')\<rparr>"

definition fresh_core :: core where
  "fresh_core =
     \<lparr>agent_id = ''crew-1'', auto_approve = False, log_tool_calls = True, metadata = [],
      active_decisions = [], sent = [], logged = []\<rparr>"

definition plain_host :: host where
  "plain_host =
     \<lparr>objects = plain_heap,
      ident = (\<lambda>v. case v of PRef a \<Rightarrow> a | _ \<Rightarrow> 0),
      render = (\<lambda>v. ''?'')\<rparr>"

text \<open>
  The value the client stores under a context key after the merge: the reference, under
  the adapter's reference key, when the hook passed a non-empty one.
\<close>

definition stored_reference :: "adapter \<Rightarrow> string option \<Rightarrow> string \<Rightarrow> pyval option" where
  "stored_reference A reference_id k =
     (case reference_id of
        Some r \<Rightarrow> if reference_key A = Some k \<and> r \<noteq> [] then Some (PStr r) else None
      | None \<Rightarrow> None)"

section \<open>Terminal transitions\<close>

text \<open>
  A request is a terminal transition of decision \<open>d\<close> when it is a transition request for
  \<open>d\<close> whose body starts with the status \<open>executed\<close> or \<open>failed\<close>.
\<close>

fun terminal_for :: "pyval \<Rightarrow> request \<Rightarrow> bool" where
  "terminal_for d (Transition i (PDict ((k, PStr status) # rest))) =
     (i = d \<and> k = ''status'' \<and> (status = ''executed'' \<or> status = ''failed''))"
| "terminal_for d req = False"

text \<open>A remote store that numbers the decisions it creates by the requests it has seen.\<close>

definition numbering :: env where
  "numbering =
     \<lparr>transport = (\<lambda>reqs. Inr (Response None (Inr (PDict [(''id'', PInt (int (length reqs)))])))),
      utcnow = (\<lambda>n. ''2024-01-01T00:00:00'')\<rparr>"

section \<open>Properties of the serializer\<close>

lemma sequence_map_returns:
  "(\<And>x. x \<in> set xs \<Longrightarrow> f x = Returns (g x)) \<Longrightarrow> sequence (map f xs) = Returns (map g xs)"
  by (induction xs) simp_all

lemma fold_max_ge_init: "(a::nat) \<le> fold max ds a"
proof (induction ds arbitrary: a)
  case Nil
  show ?case by simp
next
  case (Cons x ds)
  have "a \<le> max x a" by simp
  also have "\<dots> \<le> fold max ds (max x a)" by (rule Cons.IH)
  finally show ?case by simp
qed

lemma fold_max_ge_elem: "(d::nat) \<in> set ds \<Longrightarrow> d \<le> fold max ds a"
proof (induction ds arbitrary: a)
  case Nil
  then show ?case by simp
next
  case (Cons x ds)
  show ?case
  proof (cases "d = x")
    case True
    have "x \<le> max x a" by simp
    also have "\<dots> \<le> fold max ds (max x a)" by (rule fold_max_ge_init)
    finally show ?thesis using True by simp
  next
    case False
    with Cons show ?thesis by simp
  qed
qed

lemma serialize_json_safe:
  "json_safe v \<Longrightarrow> depth v \<le> n \<Longrightarrow> serialize h n v = Returns v"
proof (induction n arbitrary: v)
  case 0
  then show ?case by (cases v) simp_all
next
  case (Suc n)
  show ?case
  proof (cases v)
    case (PList xs)
    have "\<And>x. x \<in> set xs \<Longrightarrow> serialize h n x = Returns (id x)"
    proof -
      fix x assume x: "x \<in> set xs"
      have "depth x \<le> fold max (map depth xs) 0"
        by (rule fold_max_ge_elem) (simp add: x)
      with Suc.prems PList have "depth x \<le> n" by simp
      moreover from Suc.prems PList x have "json_safe x" by (simp add: list_all_iff)
      ultimately show "serialize h n x = Returns (id x)" using Suc.IH by simp
    qed
    then have "sequence (map (serialize h n) xs) = Returns (map id xs)"
      by (rule sequence_map_returns)
    then show ?thesis using PList by simp
  next
    case (PDict kvs)
    have "\<And>kv. kv \<in> set kvs \<Longrightarrow> serialize h n (snd kv) = Returns (snd kv)"
    proof -
      fix kv assume kv: "kv \<in> set kvs"
      have "depth (snd kv) \<le> fold max (map (\<lambda>kv. depth (snd kv)) kvs) 0"
        by (rule fold_max_ge_elem) (use kv in auto)
      with Suc.prems PDict have "depth (snd kv) \<le> n" by simp
      moreover from Suc.prems PDict kv have "json_safe (snd kv)" by (simp add: list_all_iff)
      ultimately show "serialize h n (snd kv) = Returns (snd kv)" using Suc.IH by simp
    qed
    then have "sequence (map (\<lambda>kv. serialize h n (snd kv)) kvs) = Returns (map snd kvs)"
      by (rule sequence_map_returns)
    then show ?thesis using PDict by (simp add: zip_map_fst_snd)
  qed (use Suc.prems in simp_all)
qed

text \<open>
  Claim C6. The serializer is idempotent on input that is already JSON-safe: for every
  value built only from \<open>None\<close>, strings, integers, floats, booleans, lists and
  string-keyed mappings of such values, and every budget of at least the value's depth,
  serializing it returns an equal value, and serializing that result again returns the
  same value.
\<close>

theorem serialize_idempotent_on_json_safe:
  "json_safe v \<Longrightarrow>
     serialize h (depth v + k) v = Returns v \<and>
     (\<exists>r. serialize h (depth v + k) v = Returns r \<and> serialize h (depth v + k) r = Returns r)"
  by (simp add: serialize_json_safe)

theorem serialize_idempotent_on_json_safe_witness:
  "json_safe (PDict [(''q'', PStr ''x''), (''n'', PList [PInt 1, PNone])]) \<and>
   depth (PDict [(''q'', PStr ''x''), (''n'', PList [PInt 1, PNone])]) + 0 = 3 \<and>
   serialize plain_heap
     (depth (PDict [(''q'', PStr ''x''), (''n'', PList [PInt 1, PNone])]) + 0)
     (PDict [(''q'', PStr ''x''), (''n'', PList [PInt 1, PNone])])
     = Returns (PDict [(''q'', PStr ''x''), (''n'', PList [PInt 1, PNone])])"
proof -
  have safe: "json_safe (PDict [(''q'', PStr ''x''), (''n'', PList [PInt 1, PNone])])"
    by simp
  have "depth (PDict [(''q'', PStr ''x''), (''n'', PList [PInt 1, PNone])]) + 0 = 3"
    by simp
  with safe serialize_idempotent_on_json_safe [OF safe, of plain_heap 0]
  show ?thesis by blast
qed























lemma serialize_chain_heap:
  "serialize chain_heap (2 * a) (PRef a) = OutOfFuel \<and>
   (\<exists>r. serialize chain_heap (Suc (2 * a)) (PRef a) = Returns r)"
proof (induction a)
  case 0
  show ?case by (simp add: chain_heap_def plain_object_def)
next
  case (Suc a)
  have step: "serialize chain_heap (Suc (Suc n)) (PRef (Suc a)) =
      (case serialize chain_heap n (PRef a) of
         Returns v \<Rightarrow> Returns (PDict [(''next'', v)])
       | Raises e \<Rightarrow> Raises e
       | OutOfFuel \<Rightarrow> OutOfFuel)" for n
    by (simp add: chain_heap_def plain_object_def split: outcome.splits)
  have e: "2 * Suc a = Suc (Suc (2 * a))" by simp
  from Suc obtain r where r: "serialize chain_heap (Suc (2 * a)) (PRef a) = Returns r"
    by blast
  from Suc have "serialize chain_heap (2 * Suc a) (PRef (Suc a)) = OutOfFuel"
    unfolding e step by simp
  moreover have "serialize chain_heap (Suc (2 * Suc a)) (PRef (Suc a))
      = Returns (PDict [(''next'', r)])"
    unfolding e step r by simp
  ultimately show ?case by blast
qed



section \<open>Properties of the lifecycle client\<close>

lemma transition_decision_eq:
  "transition_decision E d st res s =
     (Returns (),
      (case transition_failure (transport E (sent s @ [Transition d (transition_payload st res)])) of
         Some e \<Rightarrow> s\<lparr>sent := sent s @ [Transition d (transition_payload st res)],
                      logged := logged s @ [TransitionFailed d e]\<rparr>
       | None \<Rightarrow> s\<lparr>sent := sent s @ [Transition d (transition_payload st res)]\<rparr>))"
  by (simp add: transition_decision_def transition_decision_try_def post_def and_then_def
      except_exception_def raise_for_status_def transition_failure_def Let_def
      split: sum.splits option.splits)

lemma log_decision_eq:
  "log_decision E A ty act ctx ref s =
     (let p = decision_payload E A ty act ctx ref s;
          s1 = s\<lparr>sent := sent s @ [CreateDecision p]\<rparr>;
          out = transport E (sent s1)
      in case create_failure out of
           Some e \<Rightarrow> (Returns PNone, s1\<lparr>logged := logged s1 @ [LogDecisionFailed e]\<rparr>)
         | None \<Rightarrow>
             if auto_approve s \<and> truthy (assigned_id out)
             then (Returns (assigned_id out),
                   snd (transition_decision E (assigned_id out) ''approved'' None s1))
             else (Returns (assigned_id out), s1))"
  by (simp add: log_decision_def log_decision_try_def post_def and_then_def
      except_exception_def raise_for_status_def response_json_def decision_get_id_def
      create_failure_def assigned_id_def transition_decision_eq Let_def
      split: sum.splits option.splits pyval.splits)


subsection \<open>Dictionary operations\<close>

lemma map_of_dict_set: "map_of (dict_set d k v) = (map_of d)(k \<mapsto> v)"
  by (induction d) (auto simp: fun_eq_iff)

lemma keys_dict_set: "fst ` set (dict_set d k v) = insert k (fst ` set d)"
  by (induction d) auto

lemma distinct_dict_set:
  "distinct (map fst d) \<Longrightarrow> distinct (map fst (dict_set d k v))"
proof (induction d)
  case Nil
  show ?case by simp
next
  case (Cons kv d)
  have "set (map fst (dict_set d k v)) = insert k (fst ` set d)"
    using keys_dict_set [of d k v] by simp
  with Cons show ?case by auto
qed

lemma dict_merge_Cons:
  "dict_merge d (kv # e) = dict_merge (dict_set d (fst kv) (snd kv)) e"
  by (simp add: dict_merge_def)

lemma map_of_dict_merge_rev: "map_of (dict_merge d e) = map_of d ++ map_of (rev e)"
proof (induction e arbitrary: d)
  case Nil
  show ?case by (simp add: dict_merge_def)
next
  case (Cons kv e)
  have "map_of (dict_merge d (kv # e)) = (map_of d)(fst kv \<mapsto> snd kv) ++ map_of (rev e)"
    by (simp only: dict_merge_Cons Cons.IH map_of_dict_set)
  also have "\<dots> = map_of d ++ map_of (rev (kv # e))"
    by (cases kv) (auto simp: fun_eq_iff map_add_def split: option.splits)
  finally show ?case .
qed

lemma map_of_rev_distinct: "distinct (map fst e) \<Longrightarrow> map_of (rev e) = map_of e"
proof (induction e)
  case Nil
  show ?case by simp
next
  case (Cons kv e)
  then have "fst kv \<notin> dom (map_of e)" by (auto simp: dom_map_of_conv_image_fst)
  then have "map_of e (fst kv) = None" by blast
  with Cons show ?case
    by (cases kv) (auto simp: fun_eq_iff map_add_def split: option.splits)
qed

lemma map_of_dict_merge:
  "distinct (map fst e) \<Longrightarrow> map_of (dict_merge d e) = map_of d ++ map_of e"
  by (simp add: map_of_dict_merge_rev map_of_rev_distinct)

lemma keys_dict_merge: "fst ` set (dict_merge d e) = fst ` set d \<union> fst ` set e"
proof (induction e arbitrary: d)
  case Nil
  show ?case by (simp add: dict_merge_def)
next
  case (Cons kv e)
  show ?case by (simp add: dict_merge_Cons Cons.IH keys_dict_set)
qed

lemma distinct_dict_merge:
  "distinct (map fst d) \<Longrightarrow> distinct (map fst (dict_merge d e))"
proof (induction e arbitrary: d)
  case Nil
  then show ?case by (simp add: dict_merge_def)
next
  case (Cons kv e)
  then show ?case by (simp add: dict_merge_Cons distinct_dict_set)
qed

subsection \<open>Propose and transition\<close>

lemma log_decision_returns:
  "\<exists>s'. log_decision E A ty act ctx ref s =
     (Returns (if create_failure (transport E (sent s @
          [CreateDecision (decision_payload E A ty act ctx ref s)])) = None
        then assigned_id (transport E (sent s @
          [CreateDecision (decision_payload E A ty act ctx ref s)]))
        else PNone), s')"
  by (auto simp: log_decision_eq Let_def split: option.splits)

lemma log_decision_failure:
  "create_failure (transport E (sent s @
       [CreateDecision (decision_payload E A ty act ctx ref s)])) = Some e \<Longrightarrow>
   log_decision E A ty act ctx ref s =
     (Returns PNone,
      s\<lparr>sent := sent s @ [CreateDecision (decision_payload E A ty act ctx ref s)],
        logged := logged s @ [LogDecisionFailed e]\<rparr>)"
  by (simp add: log_decision_eq Let_def)

lemma transition_decision_failure:
  "transition_failure (transport E (sent s @ [Transition d (transition_payload st res)])) = Some e \<Longrightarrow>
   transition_decision E d st res s =
     (Returns (),
      s\<lparr>sent := sent s @ [Transition d (transition_payload st res)],
        logged := logged s @ [TransitionFailed d e]\<rparr>)"
  by (simp add: transition_decision_eq)

text \<open>
  Claim C2. Whatever the inputs and whatever the remote store does, propose
  (\<open>_log_decision\<close>) and transition (\<open>_transition_decision\<close>) return normally: they
  neither raise nor fail to return. Propose returns the id the remote store assigned or
  \<open>None\<close>. When the creation request fails (transport error, error status, undecodable
  or non-dictionary body) propose logs the failure and returns \<open>None\<close>; when the
  transition request fails, transition logs the failure and returns.
\<close>

theorem client_calls_always_return:
  "let create = transport E (sent s @ [CreateDecision (decision_payload E A ty act ctx ref s)]);
       trans = transport E (sent s @ [Transition d (transition_payload st res)])
   in (\<exists>r s'. log_decision E A ty act ctx ref s = (Returns r, s') \<and>
          (r = PNone \<or> r = assigned_id create)) \<and>
      (\<forall>e. create_failure create = Some e \<longrightarrow>
          log_decision E A ty act ctx ref s =
            (Returns PNone,
             s\<lparr>sent := sent s @ [CreateDecision (decision_payload E A ty act ctx ref s)],
               logged := logged s @ [LogDecisionFailed e]\<rparr>)) \<and>
      (\<exists>s'. transition_decision E d st res s = (Returns (), s')) \<and>
      (\<forall>e. transition_failure trans = Some e \<longrightarrow>
          transition_decision E d st res s =
            (Returns (),
             s\<lparr>sent := sent s @ [Transition d (transition_payload st res)],
               logged := logged s @ [TransitionFailed d e]\<rparr>))"
proof -
  obtain s' where "log_decision E A ty act ctx ref s =
     (Returns (if create_failure (transport E (sent s @
          [CreateDecision (decision_payload E A ty act ctx ref s)])) = None
        then assigned_id (transport E (sent s @
          [CreateDecision (decision_payload E A ty act ctx ref s)]))
        else PNone), s')"
    using log_decision_returns by blast
  then have 1: "\<exists>r s'. log_decision E A ty act ctx ref s = (Returns r, s') \<and>
      (r = PNone \<or> r = assigned_id (transport E (sent s @
          [CreateDecision (decision_payload E A ty act ctx ref s)])))"
    by (cases "create_failure (transport E (sent s @
          [CreateDecision (decision_payload E A ty act ctx ref s)])) = None") simp_all
  have 2: "\<exists>s'. transition_decision E d st res s = (Returns (), s')"
    by (simp add: transition_decision_eq)
  show ?thesis
    unfolding Let_def
    using 1 2 log_decision_failure [of E s A ty act ctx ref]
      transition_decision_failure [of E s d st res]
    by blast
qed

theorem client_calls_always_return_witness:
  "create_failure (transport unreachable (sent fresh_core @
      [CreateDecision (decision_payload unreachable CrewAI ''tool_usage'' (PStr ''search'')
         [(''q'', PStr ''x'')] None fresh_core)])) = Some (HostError ''connection refused'') \<and>
   log_decision unreachable CrewAI ''tool_usage'' (PStr ''search'') [(''q'', PStr ''x'')] None
       fresh_core =
     (Returns PNone,
      fresh_core\<lparr>sent := sent fresh_core @
          [CreateDecision (decision_payload unreachable CrewAI ''tool_usage'' (PStr ''search'')
             [(''q'', PStr ''x'')] None fresh_core)],
        logged := logged fresh_core @ [LogDecisionFailed (HostError ''connection refused'')]\<rparr>) \<and>
   transition_failure (transport unreachable (sent fresh_core @
      [Transition (PStr ''d1'') (transition_payload ''executed'' None)]))
     = Some (HostError ''connection refused'') \<and>
   transition_decision unreachable (PStr ''d1'') ''executed'' None fresh_core =
     (Returns (),
      fresh_core\<lparr>sent := sent fresh_core @
          [Transition (PStr ''d1'') (transition_payload ''executed'' None)],
        logged := logged fresh_core @
          [TransitionFailed (PStr ''d1'') (HostError ''connection refused'')]\<rparr>)"
proof -
  have c: "create_failure (transport unreachable (sent fresh_core @
      [CreateDecision (decision_payload unreachable CrewAI ''tool_usage'' (PStr ''search'')
         [(''q'', PStr ''x'')] None fresh_core)])) = Some (HostError ''connection refused'')"
    by (simp add: unreachable_def create_failure_def)
  have t: "transition_failure (transport unreachable (sent fresh_core @
      [Transition (PStr ''d1'') (transition_payload ''executed'' None)]))
     = Some (HostError ''connection refused'')"
    by (simp add: unreachable_def transition_failure_def)
  note w = client_calls_always_return
    [of unreachable fresh_core CrewAI "''tool_usage''" "PStr ''search''"
        "[(''q'', PStr ''x'')]" None "PStr ''d1''" "''executed''" None, unfolded Let_def]
  from w c have 1: "log_decision unreachable CrewAI ''tool_usage'' (PStr ''search'')
       [(''q'', PStr ''x'')] None fresh_core =
     (Returns PNone,
      fresh_core\<lparr>sent := sent fresh_core @
          [CreateDecision (decision_payload unreachable CrewAI ''tool_usage'' (PStr ''search'')
             [(''q'', PStr ''x'')] None fresh_core)],
        logged := logged fresh_core @ [LogDecisionFailed (HostError ''connection refused'')]\<rparr>)"
    by blast
  from w t have 2: "transition_decision unreachable (PStr ''d1'') ''executed'' None fresh_core =
     (Returns (),
      fresh_core\<lparr>sent := sent fresh_core @
          [Transition (PStr ''d1'') (transition_payload ''executed'' None)],
        logged := logged fresh_core @
          [TransitionFailed (PStr ''d1'') (HostError ''connection refused'')]\<rparr>)"
    by blast
  show ?thesis using c 1 t 2 by - (intro conjI; assumption)
qed

lemma log_decision_sent:
  "sent (snd (log_decision E A ty act ctx ref s)) =
     sent s @ CreateDecision (decision_payload E A ty act ctx ref s) #
       (if auto_approve s \<and> truthy (fst_value) then [Transition fst_value (PDict [(''status'', PStr ''approved'')])] else [])"
  if "fst (log_decision E A ty act ctx ref s) = Returns fst_value"
  using that
  by (auto simp: log_decision_eq transition_decision_eq transition_payload_def Let_def
      split: option.splits)

lemma log_decision_frame:
  "active_decisions (snd (log_decision E A ty act ctx ref s)) = active_decisions s \<and>
   auto_approve (snd (log_decision E A ty act ctx ref s)) = auto_approve s \<and>
   log_tool_calls (snd (log_decision E A ty act ctx ref s)) = log_tool_calls s \<and>
   metadata (snd (log_decision E A ty act ctx ref s)) = metadata s \<and>
   agent_id (snd (log_decision E A ty act ctx ref s)) = agent_id s"
  by (auto simp: log_decision_eq transition_decision_eq Let_def split: option.splits)

lemma log_decision_same_create:
  assumes "utcnow E' = utcnow E"
    and "transport E' (sent s @ [CreateDecision (decision_payload E A ty act ctx ref s)])
       = transport E (sent s @ [CreateDecision (decision_payload E A ty act ctx ref s)])"
  shows "fst (log_decision E' A ty act ctx ref s) = fst (log_decision E A ty act ctx ref s)"
proof -
  have p: "decision_payload E' A ty act ctx ref s = decision_payload E A ty act ctx ref s"
    by (simp add: decision_payload_def assms(1))
  show ?thesis
    using assms(2) by (simp add: log_decision_eq Let_def p split: option.splits)
qed

text \<open>
  Claim C4. With auto-approve enabled, a propose call that obtains a decision id (a
  true value, as the code tests it) makes, before it returns, exactly one further
  request: the transition of that id to \<open>approved\<close>. The id propose returns is fixed by
  the answer to the creation request alone, so it is the same whatever happens to the
  approve call. With auto-approve disabled, propose makes the creation request and
  nothing else.
\<close>

theorem auto_approve_follows_propose:
  "let p = decision_payload E A ty act ctx ref s;
       s' = snd (log_decision E A ty act ctx ref s)
   in (\<forall>d. auto_approve s \<and> fst (log_decision E A ty act ctx ref s) = Returns d \<and> truthy d \<longrightarrow>
         sent s' = sent s @ [CreateDecision p,
                             Transition d (PDict [(''status'', PStr ''approved'')])]) \<and>
      (\<forall>E'. utcnow E' = utcnow E \<and>
            transport E' (sent s @ [CreateDecision p]) = transport E (sent s @ [CreateDecision p]) \<longrightarrow>
         fst (log_decision E' A ty act ctx ref s) = fst (log_decision E A ty act ctx ref s)) \<and>
      (\<not> auto_approve s \<longrightarrow> sent s' = sent s @ [CreateDecision p])"
proof -
  obtain r where r: "fst (log_decision E A ty act ctx ref s) = Returns r"
    using log_decision_returns [of E A ty act ctx ref s] by auto
  note snt = log_decision_sent [OF r]
  have 1: "\<forall>d. auto_approve s \<and> fst (log_decision E A ty act ctx ref s) = Returns d \<and> truthy d \<longrightarrow>
      sent (snd (log_decision E A ty act ctx ref s)) =
        sent s @ [CreateDecision (decision_payload E A ty act ctx ref s),
                  Transition d (PDict [(''status'', PStr ''approved'')])]"
  proof (intro allI impI)
    fix d
    assume a: "auto_approve s \<and> fst (log_decision E A ty act ctx ref s) = Returns d \<and> truthy d"
    with r have "d = r" by simp
    with a snt show "sent (snd (log_decision E A ty act ctx ref s)) =
        sent s @ [CreateDecision (decision_payload E A ty act ctx ref s),
                  Transition d (PDict [(''status'', PStr ''approved'')])]"
      by simp
  qed
  have 2: "\<forall>E'. utcnow E' = utcnow E \<and>
        transport E' (sent s @ [CreateDecision (decision_payload E A ty act ctx ref s)])
          = transport E (sent s @ [CreateDecision (decision_payload E A ty act ctx ref s)]) \<longrightarrow>
      fst (log_decision E' A ty act ctx ref s) = fst (log_decision E A ty act ctx ref s)"
    using log_decision_same_create by blast
  have 3: "\<not> auto_approve s \<longrightarrow>
      sent (snd (log_decision E A ty act ctx ref s)) =
        sent s @ [CreateDecision (decision_payload E A ty act ctx ref s)]"
    using snt by simp
  show ?thesis
    unfolding Let_def using 1 2 3 by (intro conjI)
qed

theorem auto_approve_follows_propose_witness:
  "auto_approve (fresh_core\<lparr>auto_approve := True\<rparr>) \<and>
   fst (log_decision (refusing_transitions (PStr ''d1'')) LangChainV1 ''tool_execution''
          (PStr ''search'') [(''q'', PStr ''x'')] None (fresh_core\<lparr>auto_approve := True\<rparr>))
     = Returns (PStr ''d1'') \<and>
   truthy (PStr ''d1'') \<and>
   sent (snd (log_decision (refusing_transitions (PStr ''d1'')) LangChainV1 ''tool_execution''
          (PStr ''search'') [(''q'', PStr ''x'')] None (fresh_core\<lparr>auto_approve := True\<rparr>)))
     = sent (fresh_core\<lparr>auto_approve := True\<rparr>) @
       [CreateDecision (decision_payload (refusing_transitions (PStr ''d1'')) LangChainV1
          ''tool_execution'' (PStr ''search'') [(''q'', PStr ''x'')] None
          (fresh_core\<lparr>auto_approve := True\<rparr>)),
        Transition (PStr ''d1'') (PDict [(''status'', PStr ''approved'')])] \<and>
   logged (snd (log_decision (refusing_transitions (PStr ''d1'')) LangChainV1 ''tool_execution''
          (PStr ''search'') [(''q'', PStr ''x'')] None (fresh_core\<lparr>auto_approve := True\<rparr>)))
     = [TransitionFailed (PStr ''d1'') (HostError ''timeout'')] \<and>
   \<not> auto_approve fresh_core \<and>
   sent (snd (log_decision (accepting (PStr ''d1'')) LangChainV1 ''tool_execution''
          (PStr ''search'') [(''q'', PStr ''x'')] None fresh_core))
     = sent fresh_core @
       [CreateDecision (decision_payload (accepting (PStr ''d1'')) LangChainV1
          ''tool_execution'' (PStr ''search'') [(''q'', PStr ''x'')] None fresh_core)] \<and>
   utcnow (accepting (PStr ''d1'')) = utcnow (refusing_transitions (PStr ''d1'')) \<and>
   transport (accepting (PStr ''d1'')) (sent (fresh_core\<lparr>auto_approve := True\<rparr>) @
       [CreateDecision (decision_payload (refusing_transitions (PStr ''d1'')) LangChainV1
          ''tool_execution'' (PStr ''search'') [(''q'', PStr ''x'')] None
          (fresh_core\<lparr>auto_approve := True\<rparr>))])
     = transport (refusing_transitions (PStr ''d1''))
         (sent (fresh_core\<lparr>auto_approve := True\<rparr>) @
       [CreateDecision (decision_payload (refusing_transitions (PStr ''d1'')) LangChainV1
          ''tool_execution'' (PStr ''search'') [(''q'', PStr ''x'')] None
          (fresh_core\<lparr>auto_approve := True\<rparr>))]) \<and>
   fst (log_decision (accepting (PStr ''d1'')) LangChainV1 ''tool_execution''
          (PStr ''search'') [(''q'', PStr ''x'')] None (fresh_core\<lparr>auto_approve := True\<rparr>))
     = fst (log_decision (refusing_transitions (PStr ''d1'')) LangChainV1 ''tool_execution''
          (PStr ''search'') [(''q'', PStr ''x'')] None (fresh_core\<lparr>auto_approve := True\<rparr>))"
proof -
  let ?E = "refusing_transitions (PStr ''d1'')"
  let ?s = "fresh_core\<lparr>auto_approve := True\<rparr>"
  let ?ctx = "[(''q'', PStr ''x'')]"
  have a: "auto_approve ?s" by (simp add: fresh_core_def)
  have r: "fst (log_decision ?E LangChainV1 ''tool_execution'' (PStr ''search'') ?ctx None ?s)
            = Returns (PStr ''d1'')"
    by (simp add: log_decision_eq Let_def refusing_transitions_def fresh_core_def
        create_failure_def assigned_id_def dict_get_def)
  have t: "truthy (PStr ''d1'')" by simp
  have l: "logged (snd (log_decision ?E LangChainV1 ''tool_execution'' (PStr ''search'') ?ctx None ?s))
            = [TransitionFailed (PStr ''d1'') (HostError ''timeout'')]"
    by (simp add: log_decision_eq transition_decision_eq Let_def refusing_transitions_def
        fresh_core_def create_failure_def assigned_id_def dict_get_def transition_failure_def)
  have n: "\<not> auto_approve fresh_core" by (simp add: fresh_core_def)
  note w1 = auto_approve_follows_propose
    [where E = ?E and s = ?s and A = LangChainV1 and ty = "''tool_execution''"
       and act = "PStr ''search''" and ctx = ?ctx and ref = None,
     unfolded Let_def, THEN conjunct1, THEN spec, THEN mp, OF conjI [OF a conjI [OF r t]]]
  note w2 = auto_approve_follows_propose
    [where E = "accepting (PStr ''d1'')" and s = fresh_core and A = LangChainV1
       and ty = "''tool_execution''" and act = "PStr ''search''" and ctx = ?ctx and ref = None,
     unfolded Let_def, THEN conjunct2, THEN conjunct2, THEN mp, OF n]
  have u: "utcnow (accepting (PStr ''d1'')) = utcnow ?E"
    by (simp add: accepting_def refusing_transitions_def)
  have v: "transport (accepting (PStr ''d1'')) (sent ?s @
       [CreateDecision (decision_payload ?E LangChainV1
          ''tool_execution'' (PStr ''search'') ?ctx None ?s)])
     = transport ?E (sent ?s @
       [CreateDecision (decision_payload ?E LangChainV1
          ''tool_execution'' (PStr ''search'') ?ctx None ?s)])"
    by (simp add: accepting_def refusing_transitions_def)
  note w3 = auto_approve_follows_propose
    [where E = ?E and s = ?s and A = LangChainV1 and ty = "''tool_execution''"
       and act = "PStr ''search''" and ctx = ?ctx and ref = None,
     unfolded Let_def, THEN conjunct2, THEN conjunct1, THEN spec, THEN mp, OF conjI [OF u v]]
  show ?thesis using a r t w1 l n w2 u v w3 by - (intro conjI; assumption)
qed

lemma merged_context_generated:
  "map_of (merged_context A ctx md ts) ''timestamp'' = Some (PStr ts) \<and>
   map_of (merged_context A ctx md ts) ''source'' = Some (PStr (source_tag A))"
  by (simp add: merged_context_def map_of_dict_set)

lemma reference_key_not_generated:
  "reference_key A = Some key \<Longrightarrow> key \<noteq> ''timestamp'' \<and> key \<noteq> ''source''"
  by (cases A) auto

lemma payload_context_map:
  "map_of (payload_context A ctx md ts ref) k =
     (case stored_reference A ref k of
        Some r \<Rightarrow> Some r
      | None \<Rightarrow> map_of (merged_context A ctx md ts) k)"
  by (cases "reference_key A"; cases ref)
     (auto simp: payload_context_def stored_reference_def map_of_dict_set)

lemma payload_context_generated:
  "map_of (payload_context A ctx md ts ref) ''timestamp'' = Some (PStr ts) \<and>
   map_of (payload_context A ctx md ts ref) ''source'' = Some (PStr (source_tag A))"
proof -
  have "stored_reference A ref ''timestamp'' = None \<and> stored_reference A ref ''source'' = None"
    using reference_key_not_generated [of A]
    by (auto simp: stored_reference_def split: option.splits)
  then show ?thesis
    by (simp add: payload_context_map merged_context_generated)
qed

lemma merged_context_keys:
  "fst ` set (merged_context A ctx md ts) =
     fst ` set ctx \<union> fst ` set md \<union> {''timestamp'', ''source''}"
  by (auto simp: merged_context_def keys_dict_set keys_dict_merge)

lemma payload_context_keys:
  "fst ` set md \<subseteq> fst ` set (payload_context A ctx md ts ref)"
  by (auto simp: payload_context_def keys_dict_set merged_context_keys
      split: option.splits)

lemma merged_context_distinct: "distinct (map fst (merged_context A ctx md ts))"
  by (simp add: merged_context_def distinct_dict_set distinct_dict_merge)

lemma payload_context_distinct: "distinct (map fst (payload_context A ctx md ts ref))"
  by (auto simp: payload_context_def distinct_dict_set merged_context_distinct
      split: option.splits)

lemma merged_context_metadata:
  assumes "distinct (map fst md)" and "map_of md k = Some v"
    and "k \<noteq> ''timestamp''" and "k \<noteq> ''source''"
  shows "map_of (merged_context A ctx md ts) k = Some v"
  using assms
  by (simp add: merged_context_def map_of_dict_set map_of_dict_merge map_add_def)

lemma map_of_rev_None: "map_of (rev e) k = None \<longleftrightarrow> map_of e k = None"
  by (simp add: map_of_eq_None_iff)

lemma merged_context_lookup:
  assumes "distinct (map fst ctx)" and "distinct (map fst md)"
  shows "map_of (merged_context A ctx md ts) k =
     (if k = ''source'' then Some (PStr (source_tag A))
      else if k = ''timestamp'' then Some (PStr ts)
      else (case map_of md k of Some v \<Rightarrow> Some v | None \<Rightarrow> map_of ctx k))"
  using assms
  by (simp add: merged_context_def map_of_dict_set map_of_dict_merge map_add_def)

lemma merged_context_caller:
  assumes "distinct (map fst ctx)" and "map_of ctx k = Some v" and "map_of md k = None"
    and "k \<noteq> ''timestamp''" and "k \<noteq> ''source''"
  shows "map_of (merged_context A ctx md ts) k = Some v"
proof -
  have "map_of (rev md) k = None" using assms(3) by (simp add: map_of_rev_None)
  then show ?thesis
    using assms
    by (simp add: merged_context_def map_of_dict_set map_of_dict_merge_rev [of _ md]
        map_of_dict_merge map_add_def)
qed

lemma payload_context_keys_eq:
  "fst ` set (payload_context A ctx md ts ref) =
     fst ` set ctx \<union> fst ` set md \<union> {''timestamp'', ''source''} \<union>
     {k. stored_reference A ref k \<noteq> None}"
proof -
  have m: "fst ` set (merged_context A ctx md ts)
             = fst ` set ctx \<union> fst ` set md \<union> {''timestamp'', ''source''}"
    by (rule merged_context_keys)
  show ?thesis
  proof (cases "reference_key A")
    case None
    then show ?thesis
      by (auto simp: payload_context_def stored_reference_def m split: option.splits)
  next
    case (Some key)
    show ?thesis
    proof (cases ref)
      case None
      with Some show ?thesis
        by (auto simp: payload_context_def stored_reference_def m)
    next
      case (Some r)
      with \<open>reference_key A = Some key\<close> show ?thesis
        by (cases "r = []")
           (auto simp: payload_context_def stored_reference_def m keys_dict_set)
    qed
  qed
qed

lemma payload_context_lookup:
  assumes "distinct (map fst ctx)" and "distinct (map fst md)"
  shows "map_of (payload_context A ctx md ts ref) k =
     (case stored_reference A ref k of
        Some r \<Rightarrow> Some r
      | None \<Rightarrow>
          if k = ''timestamp'' then Some (PStr ts)
          else if k = ''source'' then Some (PStr (source_tag A))
          else (case map_of md k of Some v \<Rightarrow> Some v | None \<Rightarrow> map_of ctx k))"
  by (simp add: payload_context_map merged_context_lookup [OF assms] split: option.splits)

text \<open>
  Claim C9. Every propose call makes one creation request, and its body is exactly
  \<open>{agent_id, type, action, status, context}\<close>: the status is the literal
  \<open>"proposed"\<close>, and the only request that may follow within the call is the
  auto-approve transition. The context always holds the key \<open>timestamp\<close> with the
  clock's value and the key \<open>source\<close> with the adapter's tag. The instance's metadata
  is merged into it: the keys of the context are those of the caller's context, those
  of the metadata, \<open>timestamp\<close>, \<open>source\<close> and the reference key when a reference is
  stored; every metadata entry is in the context with the metadata's value (unless its
  key is \<open>timestamp\<close>, \<open>source\<close> or the stored reference key, which are written after
  it), and an entry of the caller's context whose key the metadata does not have keeps
  the caller's value (with the same exceptions).
\<close>

theorem propose_request_body:
  "let c = payload_context A ctx (metadata s) (utcnow E (length (sent s))) ref;
       body = PDict [(''agent_id'', PStr (agent_id s)),
                     (''type'', PStr ty),
                     (''action'', act),
                     (''status'', PStr ''proposed''),
                     (''context'', PDict c)];
       s' = snd (log_decision E A ty act ctx ref s)
   in (sent s' = sent s @ [CreateDecision body] \<or>
       (\<exists>d. sent s' = sent s @ [CreateDecision body,
                Transition d (PDict [(''status'', PStr ''approved'')])])) \<and>
      map_of c ''timestamp'' = Some (PStr (utcnow E (length (sent s)))) \<and>
      map_of c ''source'' = Some (PStr (source_tag A)) \<and>
      fst ` set c = fst ` set ctx \<union> fst ` set (metadata s) \<union> {''timestamp'', ''source''} \<union>
                   {k. stored_reference A ref k \<noteq> None} \<and>
      distinct (map fst c) \<and>
      (\<forall>k v. distinct (map fst (metadata s)) \<and> map_of (metadata s) k = Some v \<and>
             k \<noteq> ''timestamp'' \<and> k \<noteq> ''source'' \<and> stored_reference A ref k = None \<longrightarrow>
         map_of c k = Some v) \<and>
      (\<forall>k v. distinct (map fst ctx) \<and> map_of ctx k = Some v \<and> map_of (metadata s) k = None \<and>
             k \<noteq> ''timestamp'' \<and> k \<noteq> ''source'' \<and> stored_reference A ref k = None \<longrightarrow>
         map_of c k = Some v)"
proof -
  let ?ts = "utcnow E (length (sent s))"
  let ?c = "payload_context A ctx (metadata s) ?ts ref"
  obtain r where r: "fst (log_decision E A ty act ctx ref s) = Returns r"
    using log_decision_returns [of E A ty act ctx ref s] by auto
  have 1: "sent (snd (log_decision E A ty act ctx ref s)) =
          sent s @ [CreateDecision (decision_payload E A ty act ctx ref s)] \<or>
        (\<exists>d. sent (snd (log_decision E A ty act ctx ref s)) =
          sent s @ [CreateDecision (decision_payload E A ty act ctx ref s),
                    Transition d (PDict [(''status'', PStr ''approved'')])])"
    using log_decision_sent [OF r] by (cases "auto_approve s \<and> truthy r") simp_all
  have 2: "map_of ?c ''timestamp'' = Some (PStr ?ts) \<and>
           map_of ?c ''source'' = Some (PStr (source_tag A))"
    by (rule payload_context_generated)
  have 3: "fst ` set ?c = fst ` set ctx \<union> fst ` set (metadata s) \<union> {''timestamp'', ''source''} \<union>
                   {k. stored_reference A ref k \<noteq> None}"
    by (rule payload_context_keys_eq)
  have 4: "distinct (map fst ?c)" by (rule payload_context_distinct)
  have 5: "\<forall>k v. distinct (map fst (metadata s)) \<and> map_of (metadata s) k = Some v \<and>
             k \<noteq> ''timestamp'' \<and> k \<noteq> ''source'' \<and> stored_reference A ref k = None \<longrightarrow>
         map_of ?c k = Some v"
    by (auto simp: payload_context_map merged_context_metadata)
  have 6: "\<forall>k v. distinct (map fst ctx) \<and> map_of ctx k = Some v \<and> map_of (metadata s) k = None \<and>
             k \<noteq> ''timestamp'' \<and> k \<noteq> ''source'' \<and> stored_reference A ref k = None \<longrightarrow>
         map_of ?c k = Some v"
    by (auto simp: payload_context_map merged_context_caller)
  show ?thesis
    unfolding Let_def
    using 1 [unfolded decision_payload_def] 2 3 4 5 6
    by (intro conjI) (elim conjE, assumption)+
qed

theorem propose_request_body_witness:
  "distinct (map fst (metadata (fresh_core\<lparr>metadata := [(''env'', PStr ''prod'')]\<rparr>))) \<and>
   map_of (metadata (fresh_core\<lparr>metadata := [(''env'', PStr ''prod'')]\<rparr>)) ''env''
     = Some (PStr ''prod'') \<and>
   stored_reference LangChain (Some ''run-7'') ''env'' = None \<and>
   map_of (payload_context LangChain [(''tool'', PStr ''search''), (''env'', PStr ''caller'')]
             (metadata (fresh_core\<lparr>metadata := [(''env'', PStr ''prod'')]\<rparr>))
             (utcnow unreachable (length (sent (fresh_core\<lparr>metadata := [(''env'', PStr ''prod'')]\<rparr>))))
             (Some ''run-7'')) ''env''
     = Some (PStr ''prod'') \<and>
   distinct (map fst [(''tool'', PStr ''search''), (''env'', PStr ''caller'')]) \<and>
   map_of [(''tool'', PStr ''search''), (''env'', PStr ''caller'')] ''tool''
     = Some (PStr ''search'') \<and>
   map_of (metadata (fresh_core\<lparr>metadata := [(''env'', PStr ''prod'')]\<rparr>)) ''tool'' = None \<and>
   stored_reference LangChain (Some ''run-7'') ''tool'' = None \<and>
   map_of (payload_context LangChain [(''tool'', PStr ''search''), (''env'', PStr ''caller'')]
             (metadata (fresh_core\<lparr>metadata := [(''env'', PStr ''prod'')]\<rparr>))
             (utcnow unreachable (length (sent (fresh_core\<lparr>metadata := [(''env'', PStr ''prod'')]\<rparr>))))
             (Some ''run-7'')) ''tool''
     = Some (PStr ''search'') \<and>
   payload_context LangChain [(''tool'', PStr ''search''), (''env'', PStr ''caller'')]
       [(''env'', PStr ''prod'')] ''2024-01-01T00:00:00'' (Some ''run-7'')
     = [(''tool'', PStr ''search''), (''env'', PStr ''prod''),
        (''timestamp'', PStr ''2024-01-01T00:00:00''), (''source'', PStr ''langchain''),
        (''run_id'', PStr ''run-7'')]"
proof -
  let ?ctx = "[(''tool'', PStr ''search''), (''env'', PStr ''caller'')]"
  let ?s = "fresh_core\<lparr>metadata := [(''env'', PStr ''prod'')]\<rparr>"
  have b: "distinct (map fst (metadata ?s))" by (simp add: fresh_core_def)
  have c: "map_of (metadata ?s) ''env'' = Some (PStr ''prod'')" by (simp add: fresh_core_def)
  have d: "stored_reference LangChain (Some ''run-7'') ''env'' = None"
    by (simp add: stored_reference_def)
  have e: "''env'' \<noteq> ''timestamp''" by simp
  have f: "''env'' \<noteq> ''source''" by simp
  have b': "distinct (map fst ?ctx)" by simp
  have c': "map_of ?ctx ''tool'' = Some (PStr ''search'')" by simp
  have m': "map_of (metadata ?s) ''tool'' = None" by (simp add: fresh_core_def)
  have d': "stored_reference LangChain (Some ''run-7'') ''tool'' = None"
    by (simp add: stored_reference_def)
  have e': "''tool'' \<noteq> ''timestamp''" by simp
  have f': "''tool'' \<noteq> ''source''" by simp
  have v: "payload_context LangChain ?ctx [(''env'', PStr ''prod'')] ''2024-01-01T00:00:00''
             (Some ''run-7'')
     = [(''tool'', PStr ''search''), (''env'', PStr ''prod''),
        (''timestamp'', PStr ''2024-01-01T00:00:00''), (''source'', PStr ''langchain''),
        (''run_id'', PStr ''run-7'')]"
    by (simp add: payload_context_def merged_context_def dict_merge_def)
  note w = propose_request_body
    [where A = LangChain and ctx = ?ctx and s = ?s and E = unreachable
       and ref = "Some ''run-7''" and ty = "''tool_execution''" and act = "PStr ''search''",
     unfolded Let_def]
  note w6 = w [THEN conjunct2, THEN conjunct2, THEN conjunct2, THEN conjunct2, THEN conjunct2,
               THEN conjunct1, THEN spec, THEN spec, THEN mp,
               OF conjI [OF b conjI [OF c conjI [OF e conjI [OF f d]]]]]
  note w7 = w [THEN conjunct2, THEN conjunct2, THEN conjunct2, THEN conjunct2, THEN conjunct2,
               THEN conjunct2, THEN spec, THEN spec, THEN mp,
               OF conjI [OF b' conjI [OF c' conjI [OF m' conjI [OF e' conjI [OF f' d']]]]]]
  show ?thesis using b c d w6 b' c' m' d' w7 v by - (intro conjI; assumption)
qed

text \<open>
  Claim C10, as amended. In every propose payload the context is built by merging, in
  order, the caller's context, the instance's metadata, the generated \<open>timestamp\<close> and
  \<open>source\<close>, and last, when the hook passed a non-empty reference, that reference under
  the adapter's reference key. So \<open>timestamp\<close> and \<open>source\<close> always hold the generated
  values, the reference key holds the reference when one was passed, for any other
  key of the metadata the metadata's value wins over the caller's, and a key that only
  the caller's context has keeps the caller's value. For dictionaries (lists of items
  with distinct keys) this fixes the value of every key of the context.
\<close>

theorem context_merge_order:
  "let c = payload_context A ctx (metadata s) (utcnow E (length (sent s))) ref
   in (\<exists>rest. sent (snd (log_decision E A ty act ctx ref s)) =
         sent s @ CreateDecision (PDict [(''agent_id'', PStr (agent_id s)),
                                         (''type'', PStr ty),
                                         (''action'', act),
                                         (''status'', PStr ''proposed''),
                                         (''context'', PDict c)]) # rest) \<and>
      map_of c ''timestamp'' = Some (PStr (utcnow E (length (sent s)))) \<and>
      map_of c ''source'' = Some (PStr (source_tag A)) \<and>
      (\<forall>k r. stored_reference A ref k = Some r \<longrightarrow> map_of c k = Some r) \<and>
      (\<forall>k v. distinct (map fst (metadata s)) \<and> map_of (metadata s) k = Some v \<and>
             k \<noteq> ''timestamp'' \<and> k \<noteq> ''source'' \<and> stored_reference A ref k = None \<longrightarrow>
         map_of c k = Some v) \<and>
      (\<forall>k v. distinct (map fst ctx) \<and> map_of ctx k = Some v \<and> map_of (metadata s) k = None \<and>
             k \<noteq> ''timestamp'' \<and> k \<noteq> ''source'' \<and> stored_reference A ref k = None \<longrightarrow>
         map_of c k = Some v) \<and>
      (distinct (map fst ctx) \<and> distinct (map fst (metadata s)) \<longrightarrow>
         (\<forall>k. map_of c k =
            (case stored_reference A ref k of
               Some r \<Rightarrow> Some r
             | None \<Rightarrow>
                 if k = ''timestamp'' then Some (PStr (utcnow E (length (sent s))))
                 else if k = ''source'' then Some (PStr (source_tag A))
                 else (case map_of (metadata s) k of
                         Some v \<Rightarrow> Some v
                       | None \<Rightarrow> map_of ctx k))))"
proof -
  let ?ts = "utcnow E (length (sent s))"
  let ?c = "payload_context A ctx (metadata s) ?ts ref"
  obtain r where r: "fst (log_decision E A ty act ctx ref s) = Returns r"
    using log_decision_returns [of E A ty act ctx ref s] by auto
  have 1: "\<exists>rest. sent (snd (log_decision E A ty act ctx ref s)) =
          sent s @ CreateDecision (decision_payload E A ty act ctx ref s) # rest"
    using log_decision_sent [OF r] by simp
  have 2: "map_of ?c ''timestamp'' = Some (PStr ?ts) \<and>
           map_of ?c ''source'' = Some (PStr (source_tag A))"
    by (rule payload_context_generated)
  have 3: "\<forall>k r. stored_reference A ref k = Some r \<longrightarrow> map_of ?c k = Some r"
    by (simp add: payload_context_map)
  have 4: "\<forall>k v. distinct (map fst (metadata s)) \<and> map_of (metadata s) k = Some v \<and>
             k \<noteq> ''timestamp'' \<and> k \<noteq> ''source'' \<and> stored_reference A ref k = None \<longrightarrow>
         map_of ?c k = Some v"
    by (auto simp: payload_context_map merged_context_metadata)
  have 5: "\<forall>k v. distinct (map fst ctx) \<and> map_of ctx k = Some v \<and> map_of (metadata s) k = None \<and>
             k \<noteq> ''timestamp'' \<and> k \<noteq> ''source'' \<and> stored_reference A ref k = None \<longrightarrow>
         map_of ?c k = Some v"
    by (auto simp: payload_context_map merged_context_caller)
  have 6: "distinct (map fst ctx) \<and> distinct (map fst (metadata s)) \<longrightarrow>
         (\<forall>k. map_of ?c k =
            (case stored_reference A ref k of
               Some r \<Rightarrow> Some r
             | None \<Rightarrow>
                 if k = ''timestamp'' then Some (PStr ?ts)
                 else if k = ''source'' then Some (PStr (source_tag A))
                 else (case map_of (metadata s) k of
                         Some v \<Rightarrow> Some v
                       | None \<Rightarrow> map_of ctx k)))"
    using payload_context_lookup [of ctx "metadata s" A ?ts ref] by blast
  show ?thesis
    unfolding Let_def
    using 1 [unfolded decision_payload_def] 2 3 4 5 6
    by (intro conjI) (elim conjE, assumption)+
qed

theorem context_merge_order_witness:
  "stored_reference LangChain (Some ''run-7'') ''run_id'' = Some (PStr ''run-7'') \<and>
   map_of (payload_context LangChain [(''tool'', PStr ''search''), (''env'', PStr ''caller'')]
             (metadata (fresh_core\<lparr>metadata := [(''env'', PStr ''prod'')]\<rparr>))
             (utcnow unreachable (length (sent (fresh_core\<lparr>metadata := [(''env'', PStr ''prod'')]\<rparr>))))
             (Some ''run-7'')) ''run_id''
     = Some (PStr ''run-7'') \<and>
   distinct (map fst (metadata (fresh_core\<lparr>metadata := [(''env'', PStr ''prod'')]\<rparr>))) \<and>
   map_of (metadata (fresh_core\<lparr>metadata := [(''env'', PStr ''prod'')]\<rparr>)) ''env''
     = Some (PStr ''prod'') \<and>
   stored_reference LangChain (Some ''run-7'') ''env'' = None \<and>
   map_of (payload_context LangChain [(''tool'', PStr ''search''), (''env'', PStr ''caller'')]
             (metadata (fresh_core\<lparr>metadata := [(''env'', PStr ''prod'')]\<rparr>))
             (utcnow unreachable (length (sent (fresh_core\<lparr>metadata := [(''env'', PStr ''prod'')]\<rparr>))))
             (Some ''run-7'')) ''env''
     = Some (PStr ''prod'') \<and>
   distinct (map fst [(''tool'', PStr ''search''), (''env'', PStr ''caller'')]) \<and>
   map_of [(''tool'', PStr ''search''), (''env'', PStr ''caller'')] ''tool''
     = Some (PStr ''search'') \<and>
   map_of (metadata (fresh_core\<lparr>metadata := [(''env'', PStr ''prod'')]\<rparr>)) ''tool'' = None \<and>
   stored_reference LangChain (Some ''run-7'') ''tool'' = None \<and>
   map_of (payload_context LangChain [(''tool'', PStr ''search''), (''env'', PStr ''caller'')]
             (metadata (fresh_core\<lparr>metadata := [(''env'', PStr ''prod'')]\<rparr>))
             (utcnow unreachable (length (sent (fresh_core\<lparr>metadata := [(''env'', PStr ''prod'')]\<rparr>))))
             (Some ''run-7'')) ''tool''
     = Some (PStr ''search'') \<and>
   map_of (payload_context LangChain [(''tool'', PStr ''search''), (''env'', PStr ''caller'')]
             (metadata (fresh_core\<lparr>metadata := [(''env'', PStr ''prod'')]\<rparr>))
             (utcnow unreachable (length (sent (fresh_core\<lparr>metadata := [(''env'', PStr ''prod'')]\<rparr>))))
             (Some ''run-7'')) ''absent''
     = None"
proof -
  let ?ctx = "[(''tool'', PStr ''search''), (''env'', PStr ''caller'')]"
  let ?s = "fresh_core\<lparr>metadata := [(''env'', PStr ''prod'')]\<rparr>"
  have a: "stored_reference LangChain (Some ''run-7'') ''run_id'' = Some (PStr ''run-7'')"
    by (simp add: stored_reference_def)
  have b: "distinct (map fst (metadata ?s))" by (simp add: fresh_core_def)
  have c: "map_of (metadata ?s) ''env'' = Some (PStr ''prod'')" by (simp add: fresh_core_def)
  have d: "stored_reference LangChain (Some ''run-7'') ''env'' = None"
    by (simp add: stored_reference_def)
  have e: "''env'' \<noteq> ''timestamp''" by simp
  have f: "''env'' \<noteq> ''source''" by simp
  have b': "distinct (map fst ?ctx)" by simp
  have c': "map_of ?ctx ''tool'' = Some (PStr ''search'')" by simp
  have m': "map_of (metadata ?s) ''tool'' = None" by (simp add: fresh_core_def)
  have d': "stored_reference LangChain (Some ''run-7'') ''tool'' = None"
    by (simp add: stored_reference_def)
  have e': "''tool'' \<noteq> ''timestamp''" by simp
  have f': "''tool'' \<noteq> ''source''" by simp
  note w = context_merge_order
    [where A = LangChain and ctx = ?ctx and s = ?s and E = unreachable
       and ref = "Some ''run-7''" and ty = "''tool_execution''" and act = "PStr ''search''",
     unfolded Let_def]
  note w4 = w [THEN conjunct2, THEN conjunct2, THEN conjunct2, THEN conjunct1,
               THEN spec, THEN spec, THEN mp, OF a]
  note w5 = w [THEN conjunct2, THEN conjunct2, THEN conjunct2, THEN conjunct2, THEN conjunct1,
               THEN spec, THEN spec, THEN mp,
               OF conjI [OF b conjI [OF c conjI [OF e conjI [OF f d]]]]]
  note w6 = w [THEN conjunct2, THEN conjunct2, THEN conjunct2, THEN conjunct2, THEN conjunct2,
               THEN conjunct1, THEN spec, THEN spec, THEN mp,
               OF conjI [OF b' conjI [OF c' conjI [OF m' conjI [OF e' conjI [OF f' d']]]]]]
  note w7 = w [THEN conjunct2, THEN conjunct2, THEN conjunct2, THEN conjunct2, THEN conjunct2,
               THEN conjunct2, THEN mp, OF conjI [OF b' b], THEN spec, of "''absent''"]
  have w7': "map_of (payload_context LangChain ?ctx (metadata ?s)
                (utcnow unreachable (length (sent ?s))) (Some ''run-7'')) ''absent'' = None"
    by (subst w7) (simp add: stored_reference_def fresh_core_def)
  show ?thesis using a w4 b c d w5 b' c' m' d' w6 w7' by - (intro conjI; assumption)
qed

theorem reference_overrides_metadata_counterexample:
  "map_of [(''reference_id'', PStr ''from-caller'')] ''reference_id''
     = Some (PStr ''from-caller'') \<and>
   map_of (metadata (fresh_core\<lparr>metadata := [(''reference_id'', PStr ''from-metadata'')]\<rparr>))
       ''reference_id'' = Some (PStr ''from-metadata'') \<and>
   sent (snd (log_decision unreachable CrewAI ''task_execution'' (PStr ''execute_task'')
          [(''reference_id'', PStr ''from-caller'')] (Some ''4711'')
          (fresh_core\<lparr>metadata := [(''reference_id'', PStr ''from-metadata'')]\<rparr>)))
     = [CreateDecision (PDict
          [(''agent_id'', PStr ''crew-1''),
           (''type'', PStr ''task_execution''),
           (''action'', PStr ''execute_task''),
           (''status'', PStr ''proposed''),
           (''context'', PDict
              [(''reference_id'', PStr ''4711''),
               (''timestamp'', PStr ''2024-01-01T00:00:00''),
               (''source'', PStr ''crewai'')])])]"
  by (simp add: log_decision_eq Let_def unreachable_def fresh_core_def create_failure_def
      decision_payload_def payload_context_def merged_context_def dict_merge_def)

section \<open>Properties of the hooks and the active decision table\<close>

lemma filter_absent_key: "map_of d k = None \<Longrightarrow> filter (\<lambda>kv. fst kv \<noteq> k) d = d"
  by (induction d) (auto split: if_splits)

lemma map_of_filter_key: "map_of (filter (\<lambda>kv. fst kv \<noteq> k) d) k = None"
  by (induction d) auto

lemma distinct_filter_key:
  "distinct (map fst d) \<Longrightarrow> distinct (map fst (filter (\<lambda>kv. fst kv \<noteq> k) d))"
  by (induction d) auto

lemma take_decision_absent:
  "map_of (active_decisions s) k = None \<Longrightarrow> take_decision k s = (PNone, s)"
  by (simp add: take_decision_def dict_pop_def dict_get_def filter_absent_key)

lemma take_decision_after:
  "map_of (active_decisions (snd (take_decision k s))) k = None"
  by (simp add: take_decision_def dict_pop_def map_of_filter_key)

lemma take_decision_frame:
  "sent (snd (take_decision k s)) = sent s \<and> logged (snd (take_decision k s)) = logged s"
  by (simp add: take_decision_def)

lemma transition_decision_frame:
  "active_decisions (snd (transition_decision E d st res s)) = active_decisions s"
  by (simp add: transition_decision_eq split: option.splits)

lemma transition_decision_sent:
  "sent (snd (transition_decision E d st res s)) = sent s @ [Transition d (transition_payload st res)]"
  by (simp add: transition_decision_eq split: option.splits)

lemma terminal_payload:
  "terminal_for d (Transition d (transition_payload ''executed'' res)) \<and>
   terminal_for d (Transition d (transition_payload ''failed'' res))"
  by (simp add: transition_payload_def split: option.splits)

subsection \<open>The end and error hooks\<close>

lemma on_tool_end_absent:
  "map_of (active_decisions s) k = None \<Longrightarrow> on_tool_end E out k s = (Returns (), s)"
  by (simp add: on_tool_end_def take_decision_absent)

lemma on_tool_error_absent:
  "map_of (active_decisions s) k = None \<Longrightarrow> on_tool_error E H err k s = (Returns (), s)"
  by (simp add: on_tool_error_def take_decision_absent)

lemma on_task_end_absent:
  "map_of (active_decisions s) (str_nat (ident H task)) = None \<Longrightarrow>
   on_task_end E H task out s = (Returns (), s)"
  by (simp add: on_task_end_def take_decision_absent Let_def)

lemma on_task_error_absent:
  "map_of (active_decisions s) (str_nat (ident H task)) = None \<Longrightarrow>
   on_task_error E H task err s = (Returns (), s)"
  by (simp add: on_task_error_def take_decision_absent Let_def)

lemma on_tool_end_takes:
  "map_of (active_decisions (snd (on_tool_end E out k s))) k = None"
  by (simp add: on_tool_end_def Let_def split_beta transition_decision_frame take_decision_after)

lemma on_tool_error_takes:
  "map_of (active_decisions (snd (on_tool_error E H err k s))) k = None"
  by (cases "py_str H err")
     (simp_all add: on_tool_error_def Let_def split_beta pure_then_def
        transition_decision_frame take_decision_after)

lemma on_task_end_takes:
  "map_of (active_decisions (snd (on_task_end E H task out s))) (str_nat (ident H task)) = None"
  by (cases "capped_text H 5000 out")
     (simp_all add: on_task_end_def Let_def split_beta pure_then_def
        transition_decision_frame take_decision_after)

lemma on_task_error_takes:
  "map_of (active_decisions (snd (on_task_error E H task err s))) (str_nat (ident H task)) = None"
  by (cases "py_str H err")
     (simp_all add: on_task_error_def Let_def split_beta pure_then_def
        transition_decision_frame take_decision_after)

lemma on_tool_end_sent:
  "sent (snd (on_tool_end E out k s)) = sent s \<or>
   (\<exists>req. truthy (dict_get (active_decisions s) k PNone) \<and>
          terminal_for (dict_get (active_decisions s) k PNone) req \<and>
          sent (snd (on_tool_end E out k s)) = sent s @ [req])"
  using terminal_payload
  by (simp add: on_tool_end_def Let_def split_beta transition_decision_sent take_decision_def
      dict_pop_def)

lemma on_tool_error_sent:
  "sent (snd (on_tool_error E H err k s)) = sent s \<or>
   (\<exists>req. truthy (dict_get (active_decisions s) k PNone) \<and>
          terminal_for (dict_get (active_decisions s) k PNone) req \<and>
          sent (snd (on_tool_error E H err k s)) = sent s @ [req])"
  using terminal_payload
  by (cases "py_str H err")
     (simp_all add: on_tool_error_def Let_def split_beta pure_then_def transition_decision_sent
        take_decision_def dict_pop_def)

lemma on_task_end_sent:
  "sent (snd (on_task_end E H task out s)) = sent s \<or>
   (\<exists>req. truthy (dict_get (active_decisions s) (str_nat (ident H task)) PNone) \<and>
          terminal_for (dict_get (active_decisions s) (str_nat (ident H task)) PNone) req \<and>
          sent (snd (on_task_end E H task out s)) = sent s @ [req])"
  using terminal_payload
  by (cases "capped_text H 5000 out")
     (simp_all add: on_task_end_def Let_def split_beta pure_then_def transition_decision_sent
        take_decision_def dict_pop_def)

lemma on_task_error_sent:
  "sent (snd (on_task_error E H task err s)) = sent s \<or>
   (\<exists>req. truthy (dict_get (active_decisions s) (str_nat (ident H task)) PNone) \<and>
          terminal_for (dict_get (active_decisions s) (str_nat (ident H task)) PNone) req \<and>
          sent (snd (on_task_error E H task err s)) = sent s @ [req])"
  using terminal_payload
  by (cases "py_str H err")
     (simp_all add: on_task_error_def Let_def split_beta pure_then_def transition_decision_sent
        take_decision_def dict_pop_def)

subsection \<open>The start hooks\<close>

lemma pure_then_cases:
  assumes "\<And>v. r = Returns v \<Longrightarrow> P (k v)"
    and "\<And>e. r = Raises e \<Longrightarrow> P (Raises e, s)"
    and "r = OutOfFuel \<Longrightarrow> P (OutOfFuel, s)"
  shows "P (pure_then r s k)"
  using assms by (cases r) (simp_all add: pure_then_def)

lemma log_decision_all_fail:
  assumes "\<forall>p. create_failure (transport E (sent s @ [CreateDecision p])) \<noteq> None"
  shows "fst (log_decision E A ty act ctx ref s) = Returns PNone \<and>
         active_decisions (snd (log_decision E A ty act ctx ref s)) = active_decisions s"
proof -
  from assms obtain e where
    "create_failure (transport E (sent s @
        [CreateDecision (decision_payload E A ty act ctx ref s)])) = Some e"
    by auto
  then show ?thesis by (simp add: log_decision_failure)
qed

lemma store_after_failed_propose:
  assumes "\<forall>p. create_failure (transport E (sent s @ [CreateDecision p])) \<noteq> None"
  shows "active_decisions (snd (and_then (log_decision E A ty act ctx ref s) (store_decision k)))
           = active_decisions s"
proof -
  obtain r s1 where l: "log_decision E A ty act ctx ref s = (r, s1)" by (cases "log_decision E A ty act ctx ref s")
  with log_decision_all_fail [OF assms, of A ty act ctx ref]
  have "r = Returns PNone" "active_decisions s1 = active_decisions s" by simp_all
  with l show ?thesis by (simp add: and_then_def store_decision_def)
qed

lemma on_tool_start_failed_propose:
  assumes "\<forall>p. create_failure (transport E (sent s @ [CreateDecision p])) \<noteq> None"
  shows "active_decisions (snd (on_tool_start E H n ser inp k tags md inputs s))
           = active_decisions s"
  using store_after_failed_propose [OF assms]
  by (cases "serialize (objects H) n inputs")
     (simp_all add: on_tool_start_def Let_def pure_then_def)

lemma on_task_start_failed_propose:
  assumes "\<forall>p. create_failure (transport E (sent s @ [CreateDecision p])) \<noteq> None"
  shows "active_decisions (snd (on_task_start E H task agent s)) = active_decisions s"
  unfolding on_task_start_def Let_def
  apply (rule pure_then_cases [where P = "\<lambda>m. active_decisions (snd m) = active_decisions s"])+
  apply (simp_all add: store_after_failed_propose [OF assms])
  done

lemma langchain_terminal_once:
  "let d = dict_get (active_decisions s) k PNone;
       s1 = snd (on_tool_end E out k s);
       s2 = snd (on_tool_error E H err k s)
   in (sent s1 = sent s \<or>
         (\<exists>req. truthy d \<and> terminal_for d req \<and> sent s1 = sent s @ [req])) \<and>
      (sent s2 = sent s \<or>
         (\<exists>req. truthy d \<and> terminal_for d req \<and> sent s2 = sent s @ [req])) \<and>
      on_tool_end E out' k s1 = (Returns (), s1) \<and>
      on_tool_error E H err' k s1 = (Returns (), s1) \<and>
      on_tool_end E out' k s2 = (Returns (), s2) \<and>
      on_tool_error E H err' k s2 = (Returns (), s2)"
proof -
  have 1: "on_tool_end E out' k (snd (on_tool_end E out k s))
             = (Returns (), snd (on_tool_end E out k s))"
    by (rule on_tool_end_absent) (rule on_tool_end_takes)
  have 2: "on_tool_error E H err' k (snd (on_tool_end E out k s))
             = (Returns (), snd (on_tool_end E out k s))"
    by (rule on_tool_error_absent) (rule on_tool_end_takes)
  have 3: "on_tool_end E out' k (snd (on_tool_error E H err k s))
             = (Returns (), snd (on_tool_error E H err k s))"
    by (rule on_tool_end_absent) (rule on_tool_error_takes)
  have 4: "on_tool_error E H err' k (snd (on_tool_error E H err k s))
             = (Returns (), snd (on_tool_error E H err k s))"
    by (rule on_tool_error_absent) (rule on_tool_error_takes)
  show ?thesis
    unfolding Let_def
    using on_tool_end_sent [of E out k s] on_tool_error_sent [of E H err k s] 1 2 3 4
    by (intro conjI)
qed

lemma crewai_terminal_once:
  "let k = str_nat (ident H task);
       d = dict_get (active_decisions s) k PNone;
       s1 = snd (on_task_end E H task out s);
       s2 = snd (on_task_error E H task err s)
   in (sent s1 = sent s \<or>
         (\<exists>req. truthy d \<and> terminal_for d req \<and> sent s1 = sent s @ [req])) \<and>
      (sent s2 = sent s \<or>
         (\<exists>req. truthy d \<and> terminal_for d req \<and> sent s2 = sent s @ [req])) \<and>
      on_task_end E H task out' s1 = (Returns (), s1) \<and>
      on_task_error E H task err' s1 = (Returns (), s1) \<and>
      on_task_end E H task out' s2 = (Returns (), s2) \<and>
      on_task_error E H task err' s2 = (Returns (), s2)"
proof -
  have 1: "on_task_end E H task out' (snd (on_task_end E H task out s))
             = (Returns (), snd (on_task_end E H task out s))"
    by (rule on_task_end_absent) (rule on_task_end_takes)
  have 2: "on_task_error E H task err' (snd (on_task_end E H task out s))
             = (Returns (), snd (on_task_end E H task out s))"
    by (rule on_task_error_absent) (rule on_task_end_takes)
  have 3: "on_task_end E H task out' (snd (on_task_error E H task err s))
             = (Returns (), snd (on_task_error E H task err s))"
    by (rule on_task_end_absent) (rule on_task_error_takes)
  have 4: "on_task_error E H task err' (snd (on_task_error E H task err s))
             = (Returns (), snd (on_task_error E H task err s))"
    by (rule on_task_error_absent) (rule on_task_error_takes)
  show ?thesis
    unfolding Let_def
    using on_task_end_sent [of E H task out s] on_task_error_sent [of E H task err s] 1 2 3 4
    by (intro conjI)
qed

lemma propose_then_store:
  "let m = and_then (log_decision E A ty act ctx ref s) (store_decision k);
       out = transport E (take (Suc (length (sent s))) (sent (snd m)))
   in fst m = Returns () \<and>
      active_decisions (snd m) =
        (if create_failure out = None \<and> truthy (assigned_id out)
         then dict_set (active_decisions s) k (assigned_id out)
         else active_decisions s)"
proof -
  let ?p = "decision_payload E A ty act ctx ref s"
  let ?out = "transport E (sent s @ [CreateDecision ?p])"
  obtain r s1 where l: "log_decision E A ty act ctx ref s = (Returns r, s1)"
    using log_decision_returns [of E A ty act ctx ref s] by blast
  have snt: "sent s1 = sent s @ CreateDecision ?p #
      (if auto_approve s \<and> truthy r
       then [Transition r (PDict [(''status'', PStr ''approved'')])] else [])"
    using log_decision_sent [of E A ty act ctx ref s r] l by simp
  have act: "active_decisions s1 = active_decisions s"
    using log_decision_frame [of E A ty act ctx ref s] l by simp
  have r: "r = (if create_failure ?out = None then assigned_id ?out else PNone)"
    using log_decision_returns [of E A ty act ctx ref s] l by auto
  have m: "and_then (log_decision E A ty act ctx ref s) (store_decision k)
             = store_decision k r s1"
    using l by (simp add: and_then_def)
  have tk: "take (Suc (length (sent s))) (sent (snd (store_decision k r s1)))
              = sent s @ [CreateDecision ?p]"
    using snt by (simp add: store_decision_def)
  show ?thesis
    unfolding Let_def m tk
    using r act by (simp add: store_decision_def)
qed

lemma on_tool_start_stores:
  "let m = on_tool_start E H n ser inp k tags md inputs s;
       out = transport E (take (Suc (length (sent s))) (sent (snd m)))
   in active_decisions (snd m) =
        (if fst m = Returns () \<and> create_failure out = None \<and> truthy (assigned_id out)
         then dict_set (active_decisions s) k (assigned_id out)
         else active_decisions s)"
proof (cases "serialize (objects H) n inputs")
  case (Returns i)
  then show ?thesis
    using propose_then_store
      [of E LangChain "''tool_execution''" "dict_get ser ''name'' (PStr ''unknown_tool'')"
          "[(''tool'', dict_get ser ''name'' (PStr ''unknown_tool'')), (''input'', PStr inp),
            (''inputs'', i), (''tags'', tags), (''metadata'', md)]" "Some k" s k]
    by (simp add: on_tool_start_def pure_then_def Let_def)
next
  case (Raises e)
  then show ?thesis by (simp add: on_tool_start_def pure_then_def Let_def)
next
  case OutOfFuel
  then show ?thesis by (simp add: on_tool_start_def pure_then_def Let_def)
qed

lemma on_task_start_stores:
  "let m = on_task_start E H task agent s;
       out = transport E (take (Suc (length (sent s))) (sent (snd m)))
   in active_decisions (snd m) =
        (if fst m = Returns () \<and> create_failure out = None \<and> truthy (assigned_id out)
         then dict_set (active_decisions s) (str_nat (ident H task)) (assigned_id out)
         else active_decisions s)"
proof -
  let ?P = "\<lambda>m. active_decisions (snd m) =
      (if fst m = Returns () \<and>
          create_failure (transport E (take (Suc (length (sent s))) (sent (snd m)))) = None \<and>
          truthy (assigned_id (transport E (take (Suc (length (sent s))) (sent (snd m)))))
       then dict_set (active_decisions s) (str_nat (ident H task))
              (assigned_id (transport E (take (Suc (length (sent s))) (sent (snd m)))))
       else active_decisions s)"
  have "?P (on_task_start E H task agent s)"
    unfolding on_task_start_def Let_def
    apply (rule pure_then_cases [where P = ?P])+
    using propose_then_store [where E = E and A = CrewAI and s = s
        and k = "str_nat (ident H task)" and ref = "Some (str_nat (ident H task))"]
    apply (simp_all add: Let_def)
    done
  then show ?thesis by (simp add: Let_def)
qed

text \<open>
  Claim C1. At most one terminal transition is issued for a unit of work. An end or
  error hook takes the decision id out of the active table under the correlation key;
  it issues nothing, or exactly one terminal transition (\<open>executed\<close> or \<open>failed\<close>) for
  the id it took, and leaves no entry under the key, so an end or error hook that fires
  again for the same key finds nothing and returns having done nothing. When propose
  failed (the creation request fails, so propose returned \<open>None\<close>) the start hook
  stores no entry, and on a key that held none the end and error hooks likewise do
  nothing. A start hook stores the id under the key exactly when it returns and the
  creation request was answered with a true id; otherwise it leaves the table as it
  was. Stated for the LangChain callback (\<open>on_tool_start\<close>, \<open>on_tool_end\<close>,
  \<open>on_tool_error\<close>) and for the CrewAI observer (\<open>on_task_start\<close>, \<open>on_task_end\<close>,
  \<open>on_task_error\<close>).
\<close>

theorem terminal_transition_at_most_once:
  "(let d = dict_get (active_decisions s) k PNone;
        s1 = snd (on_tool_end E out k s);
        s2 = snd (on_tool_error E H err k s)
    in (sent s1 = sent s \<or>
          (\<exists>req. truthy d \<and> terminal_for d req \<and> sent s1 = sent s @ [req])) \<and>
       (sent s2 = sent s \<or>
          (\<exists>req. truthy d \<and> terminal_for d req \<and> sent s2 = sent s @ [req])) \<and>
       on_tool_end E out' k s1 = (Returns (), s1) \<and>
       on_tool_error E H err' k s1 = (Returns (), s1) \<and>
       on_tool_end E out' k s2 = (Returns (), s2) \<and>
       on_tool_error E H err' k s2 = (Returns (), s2)) \<and>
   (let k' = str_nat (ident H task);
        d = dict_get (active_decisions s) k' PNone;
        s1 = snd (on_task_end E H task out s);
        s2 = snd (on_task_error E H task err s)
    in (sent s1 = sent s \<or>
          (\<exists>req. truthy d \<and> terminal_for d req \<and> sent s1 = sent s @ [req])) \<and>
       (sent s2 = sent s \<or>
          (\<exists>req. truthy d \<and> terminal_for d req \<and> sent s2 = sent s @ [req])) \<and>
       on_task_end E H task out' s1 = (Returns (), s1) \<and>
       on_task_error E H task err' s1 = (Returns (), s1) \<and>
       on_task_end E H task out' s2 = (Returns (), s2) \<and>
       on_task_error E H task err' s2 = (Returns (), s2)) \<and>
   ((\<forall>p. create_failure (transport E (sent s @ [CreateDecision p])) \<noteq> None) \<and>
    map_of (active_decisions s) k = None \<longrightarrow>
      (let s0 = snd (on_tool_start E H n ser inp k tags md inputs s)
       in active_decisions s0 = active_decisions s \<and>
          on_tool_end E out k s0 = (Returns (), s0) \<and>
          on_tool_error E H err k s0 = (Returns (), s0))) \<and>
   ((\<forall>p. create_failure (transport E (sent s @ [CreateDecision p])) \<noteq> None) \<and>
    map_of (active_decisions s) (str_nat (ident H task)) = None \<longrightarrow>
      (let s0 = snd (on_task_start E H task agent s)
       in active_decisions s0 = active_decisions s \<and>
          on_task_end E H task out s0 = (Returns (), s0) \<and>
          on_task_error E H task err s0 = (Returns (), s0))) \<and>
   (let m = on_tool_start E H n ser inp k tags md inputs s;
        answer = transport E (take (Suc (length (sent s))) (sent (snd m)))
    in active_decisions (snd m) =
         (if fst m = Returns () \<and> create_failure answer = None \<and> truthy (assigned_id answer)
          then dict_set (active_decisions s) k (assigned_id answer)
          else active_decisions s)) \<and>
   (let m = on_task_start E H task agent s;
        answer = transport E (take (Suc (length (sent s))) (sent (snd m)))
    in active_decisions (snd m) =
         (if fst m = Returns () \<and> create_failure answer = None \<and> truthy (assigned_id answer)
          then dict_set (active_decisions s) (str_nat (ident H task)) (assigned_id answer)
          else active_decisions s))"
proof (intro conjI impI)
  show "let d = dict_get (active_decisions s) k PNone;
        s1 = snd (on_tool_end E out k s);
        s2 = snd (on_tool_error E H err k s)
    in (sent s1 = sent s \<or>
          (\<exists>req. truthy d \<and> terminal_for d req \<and> sent s1 = sent s @ [req])) \<and>
       (sent s2 = sent s \<or>
          (\<exists>req. truthy d \<and> terminal_for d req \<and> sent s2 = sent s @ [req])) \<and>
       on_tool_end E out' k s1 = (Returns (), s1) \<and>
       on_tool_error E H err' k s1 = (Returns (), s1) \<and>
       on_tool_end E out' k s2 = (Returns (), s2) \<and>
       on_tool_error E H err' k s2 = (Returns (), s2)"
    by (rule langchain_terminal_once)
next
  show "let k' = str_nat (ident H task);
        d = dict_get (active_decisions s) k' PNone;
        s1 = snd (on_task_end E H task out s);
        s2 = snd (on_task_error E H task err s)
    in (sent s1 = sent s \<or>
          (\<exists>req. truthy d \<and> terminal_for d req \<and> sent s1 = sent s @ [req])) \<and>
       (sent s2 = sent s \<or>
          (\<exists>req. truthy d \<and> terminal_for d req \<and> sent s2 = sent s @ [req])) \<and>
       on_task_end E H task out' s1 = (Returns (), s1) \<and>
       on_task_error E H task err' s1 = (Returns (), s1) \<and>
       on_task_end E H task out' s2 = (Returns (), s2) \<and>
       on_task_error E H task err' s2 = (Returns (), s2)"
    by (rule crewai_terminal_once)
next
  assume a: "(\<forall>p. create_failure (transport E (sent s @ [CreateDecision p])) \<noteq> None) \<and>
    map_of (active_decisions s) k = None"
  then have eq: "active_decisions (snd (on_tool_start E H n ser inp k tags md inputs s))
                   = active_decisions s"
    using on_tool_start_failed_propose by blast
  with a have absent:
    "map_of (active_decisions (snd (on_tool_start E H n ser inp k tags md inputs s))) k = None"
    by simp
  show "let s0 = snd (on_tool_start E H n ser inp k tags md inputs s)
       in active_decisions s0 = active_decisions s \<and>
          on_tool_end E out k s0 = (Returns (), s0) \<and>
          on_tool_error E H err k s0 = (Returns (), s0)"
    unfolding Let_def
    using eq on_tool_end_absent [OF absent] on_tool_error_absent [OF absent]
    by (intro conjI)
next
  assume a: "(\<forall>p. create_failure (transport E (sent s @ [CreateDecision p])) \<noteq> None) \<and>
    map_of (active_decisions s) (str_nat (ident H task)) = None"
  then have eq: "active_decisions (snd (on_task_start E H task agent s)) = active_decisions s"
    using on_task_start_failed_propose by blast
  with a have absent:
    "map_of (active_decisions (snd (on_task_start E H task agent s))) (str_nat (ident H task))
       = None"
    by simp
  show "let s0 = snd (on_task_start E H task agent s)
       in active_decisions s0 = active_decisions s \<and>
          on_task_end E H task out s0 = (Returns (), s0) \<and>
          on_task_error E H task err s0 = (Returns (), s0)"
    unfolding Let_def
    using eq on_task_end_absent [OF absent] on_task_error_absent [OF absent]
    by (intro conjI)
next
  show "let m = on_tool_start E H n ser inp k tags md inputs s;
        answer = transport E (take (Suc (length (sent s))) (sent (snd m)))
    in active_decisions (snd m) =
         (if fst m = Returns () \<and> create_failure answer = None \<and> truthy (assigned_id answer)
          then dict_set (active_decisions s) k (assigned_id answer)
          else active_decisions s)"
    by (rule on_tool_start_stores)
next
  show "let m = on_task_start E H task agent s;
        answer = transport E (take (Suc (length (sent s))) (sent (snd m)))
    in active_decisions (snd m) =
         (if fst m = Returns () \<and> create_failure answer = None \<and> truthy (assigned_id answer)
          then dict_set (active_decisions s) (str_nat (ident H task)) (assigned_id answer)
          else active_decisions s)"
    by (rule on_task_start_stores)
qed

theorem terminal_transition_at_most_once_witness:
  "(\<forall>p. create_failure (transport unreachable (sent fresh_core @ [CreateDecision p])) \<noteq> None) \<and>
   map_of (active_decisions fresh_core) ''run-1'' = None \<and>
   (let s0 = snd (on_tool_start unreachable plain_host 3 [(''name'', PStr ''search'')] ''x''
                    ''run-1'' PNone PNone PNone fresh_core)
    in active_decisions s0 = active_decisions fresh_core \<and>
       on_tool_end unreachable (PStr ''ok'') ''run-1'' s0 = (Returns (), s0) \<and>
       on_tool_error unreachable plain_host (PStr ''boom'') ''run-1'' s0 = (Returns (), s0)) \<and>
   map_of (active_decisions fresh_core) (str_nat (ident plain_host (PRef 7))) = None \<and>
   (let s0 = snd (on_task_start unreachable plain_host (PRef 7) (PRef 8) fresh_core)
    in active_decisions s0 = active_decisions fresh_core \<and>
       on_task_end unreachable plain_host (PRef 7) (PStr ''ok'') s0 = (Returns (), s0) \<and>
       on_task_error unreachable plain_host (PRef 7) (PStr ''boom'') s0 = (Returns (), s0))"
proof -
  have a: "\<forall>p. create_failure (transport unreachable (sent fresh_core @ [CreateDecision p])) \<noteq> None"
    by (simp add: unreachable_def create_failure_def)
  have b: "map_of (active_decisions fresh_core) ''run-1'' = None"
    by (simp add: fresh_core_def)
  have c: "map_of (active_decisions fresh_core) (str_nat (ident plain_host (PRef 7))) = None"
    by (simp add: fresh_core_def)
  note w = terminal_transition_at_most_once
    [where E = unreachable and s = fresh_core and k = "''run-1''" and H = plain_host
       and n = 3 and ser = "[(''name'', PStr ''search'')]" and inp = "''x''"
       and tags = PNone and md = PNone and inputs = PNone
       and out = "PStr ''ok''" and err = "PStr ''boom''"
       and task = "PRef 7" and agent = "PRef 8"]
  note w1 = w [THEN conjunct2, THEN conjunct2, THEN conjunct1, THEN mp, OF conjI [OF a b]]
  note w2 = w [THEN conjunct2, THEN conjunct2, THEN conjunct2, THEN conjunct1, THEN mp,
               OF conjI [OF a c]]
  show ?thesis using a b w1 c w2 by - (intro conjI; assumption)
qed

text \<open>
  A tool run against a store that answers every creation with the id \<open>d1\<close>: the start
  hook stores \<open>d1\<close> under the run, the end hook takes it and issues its one transition,
  and an end hook that fires again changes nothing.
\<close>

lemma scenario_start:
  "on_tool_start (accepting (PStr ''d1'')) plain_host 3 [(''name'', PStr ''search'')] ''x''
      ''run-1'' PNone PNone PNone fresh_core
   = (Returns (),
      fresh_core\<lparr>active_decisions := [(''run-1'', PStr ''d1'')],
        sent := [CreateDecision (decision_payload (accepting (PStr ''d1'')) LangChain
                   ''tool_execution'' (PStr ''search'')
                   [(''tool'', PStr ''search''), (''input'', PStr ''x''), (''inputs'', PNone),
                    (''tags'', PNone), (''metadata'', PNone)]
                   (Some ''run-1'') fresh_core)]\<rparr>)"
  by (simp add: on_tool_start_def pure_then_def and_then_def store_decision_def dict_get_def
      plain_host_def log_decision_eq create_failure_def assigned_id_def accepting_def
      fresh_core_def eval_nat_numeral Let_def)

lemma scenario_end:
  "active_decisions s = [(''run-1'', PStr ''d1'')] \<Longrightarrow>
   on_tool_end (accepting (PStr ''d1'')) (PStr ''ok'') ''run-1'' s
   = (Returns (),
      s\<lparr>active_decisions := [],
        sent := sent s @
          [Transition (PStr ''d1'')
             (PDict [(''status'', PStr ''executed''),
                     (''result'', PDict [(''output'', PStr ''ok'')])])]\<rparr>)"
  by (simp add: on_tool_end_def take_decision_def dict_pop_def dict_get_def
      transition_decision_eq transition_payload_def transition_failure_def accepting_def)

lemma scenario_tool_run:
  "let E = accepting (PStr ''d1'');
       s1 = snd (on_tool_start E plain_host 3 [(''name'', PStr ''search'')] ''x''
                   ''run-1'' PNone PNone PNone fresh_core);
       s2 = snd (on_tool_end E (PStr ''ok'') ''run-1'' s1);
       s3 = snd (on_tool_end E (PStr ''ok'') ''run-1'' s2)
   in active_decisions s1 = [(''run-1'', PStr ''d1'')] \<and>
      active_decisions s2 = [] \<and>
      sent s2 = sent s1 @
        [Transition (PStr ''d1'')
           (PDict [(''status'', PStr ''executed''),
                   (''result'', PDict [(''output'', PStr ''ok'')])])] \<and>
      s3 = s2"
proof -
  let ?E = "accepting (PStr ''d1'')"
  let ?s1 = "snd (on_tool_start ?E plain_host 3 [(''name'', PStr ''search'')] ''x''
                   ''run-1'' PNone PNone PNone fresh_core)"
  let ?s2 = "snd (on_tool_end ?E (PStr ''ok'') ''run-1'' ?s1)"
  have 1: "active_decisions ?s1 = [(''run-1'', PStr ''d1'')]"
    by (simp add: scenario_start)
  have 2: "?s2 = ?s1\<lparr>active_decisions := [],
        sent := sent ?s1 @
          [Transition (PStr ''d1'')
             (PDict [(''status'', PStr ''executed''),
                     (''result'', PDict [(''output'', PStr ''ok'')])])]\<rparr>"
    by (simp only: scenario_end [OF 1] snd_conv)
  have 3: "active_decisions ?s2 = []" by (subst 2) simp
  have 4: "sent ?s2 = sent ?s1 @
          [Transition (PStr ''d1'')
             (PDict [(''status'', PStr ''executed''),
                     (''result'', PDict [(''output'', PStr ''ok'')])])]"
    by (subst 2) simp
  have "map_of (active_decisions ?s2) ''run-1'' = None" by (simp only: 3 map_of.simps)
  then have 5: "on_tool_end ?E (PStr ''ok'') ''run-1'' ?s2 = (Returns (), ?s2)"
    by (rule on_tool_end_absent)
  have 6: "snd (on_tool_end ?E (PStr ''ok'') ''run-1'' ?s2) = ?s2"
    by (simp only: 5 snd_conv)
  show ?thesis unfolding Let_def using 1 3 4 6 by (intro conjI)
qed

lemma store_decision_distinct:
  "distinct (map fst (active_decisions s)) \<Longrightarrow>
   distinct (map fst (active_decisions (snd (store_decision k d s))))"
  by (simp add: store_decision_def distinct_dict_set)

lemma take_decision_distinct:
  "distinct (map fst (active_decisions s)) \<Longrightarrow>
   distinct (map fst (active_decisions (snd (take_decision k s))))"
  by (simp add: take_decision_def dict_pop_def distinct_filter_key)

lemma propose_then_store_distinct:
  assumes "distinct (map fst (active_decisions s))"
  shows "distinct (map fst (active_decisions
           (snd (and_then (log_decision E A ty act ctx ref s) (store_decision k)))))"
proof -
  obtain r s1 where l: "log_decision E A ty act ctx ref s = (r, s1)"
    by (cases "log_decision E A ty act ctx ref s")
  have "active_decisions s1 = active_decisions s"
    using log_decision_frame [of E A ty act ctx ref s] l by simp
  with assms have d: "distinct (map fst (active_decisions s1))" by simp
  show ?thesis
    using l store_decision_distinct [OF d, of k]
    by (cases r) (simp_all add: and_then_def d)
qed

lemma on_agent_action_distinct:
  assumes "distinct (map fst (active_decisions s))"
  shows "distinct (map fst (active_decisions (snd (on_agent_action E H n action k s))))"
  using propose_then_store_distinct [OF assms] assms
  by (cases "serialize (objects H) n (tool_input action)")
     (simp_all add: on_agent_action_def pure_then_def)

lemma on_task_start_distinct:
  assumes "distinct (map fst (active_decisions s))"
  shows "distinct (map fst (active_decisions (snd (on_task_start E H task agent s))))"
  unfolding on_task_start_def Let_def
  apply (rule pure_then_cases [where P = "\<lambda>m. distinct (map fst (active_decisions (snd m)))"])+
  apply (simp_all add: propose_then_store_distinct [OF assms] assms)
  done

lemma store_twice:
  assumes "truthy d2"
  shows "map_of (active_decisions (snd (store_decision k d2 (snd (store_decision k d1 s))))) k
           = Some d2"
  using assms by (simp add: store_decision_def map_of_dict_set)

lemma take_after_store:
  assumes "map_of (active_decisions s) k = Some d"
  shows "fst (take_decision k s) = d \<and>
         fst (take_decision k (snd (take_decision k s))) = PNone"
  using assms
  by (simp add: take_decision_def dict_pop_def dict_get_def map_of_filter_key)

text \<open>
  Claim C5. The active decision table holds at most one entry per correlation key: the
  keys of the table stay pairwise distinct under every put and take and under the start
  hooks that put (\<open>on_agent_action\<close> of the LangChain callback, \<open>on_task_start\<close> of the
  CrewAI observer). A put under a key that already holds an entry overwrites it without
  notice: after two puts under one key the key maps to the second id, the next take
  returns that id, and a further take finds nothing, so the first id is never returned.
\<close>

theorem active_table_one_entry_per_key:
  "(distinct (map fst (active_decisions s)) \<longrightarrow>
      distinct (map fst (active_decisions (snd (store_decision k d s)))) \<and>
      distinct (map fst (active_decisions (snd (take_decision k s)))) \<and>
      distinct (map fst (active_decisions (snd (on_agent_action E H n action k s)))) \<and>
      distinct (map fst (active_decisions (snd (on_task_start E H task agent s))))) \<and>
   (truthy d2 \<longrightarrow>
      (let s2 = snd (store_decision k d2 (snd (store_decision k d1 s)))
       in map_of (active_decisions s2) k = Some d2 \<and>
          fst (take_decision k s2) = d2 \<and>
          fst (take_decision k (snd (take_decision k s2))) = PNone))"
proof (intro conjI impI)
  assume d: "distinct (map fst (active_decisions s))"
  show "distinct (map fst (active_decisions (snd (store_decision k d s))))"
    by (rule store_decision_distinct [OF d])
  show "distinct (map fst (active_decisions (snd (take_decision k s))))"
    by (rule take_decision_distinct [OF d])
  show "distinct (map fst (active_decisions (snd (on_agent_action E H n action k s))))"
    by (rule on_agent_action_distinct [OF d])
  show "distinct (map fst (active_decisions (snd (on_task_start E H task agent s))))"
    by (rule on_task_start_distinct [OF d])
next
  assume t: "truthy d2"
  have m: "map_of (active_decisions (snd (store_decision k d2 (snd (store_decision k d1 s))))) k
             = Some d2"
    by (rule store_twice [OF t])
  show "let s2 = snd (store_decision k d2 (snd (store_decision k d1 s)))
        in map_of (active_decisions s2) k = Some d2 \<and>
           fst (take_decision k s2) = d2 \<and>
           fst (take_decision k (snd (take_decision k s2))) = PNone"
    unfolding Let_def using m take_after_store [OF m] by (intro conjI) (elim conjE, assumption)+
qed

theorem active_table_one_entry_per_key_witness:
  "distinct (map fst (active_decisions fresh_core)) \<and>
   distinct (map fst (active_decisions (snd (on_agent_action numbering plain_host 3
      \<lparr>tool = ''search'', tool_input = PStr ''x'', log = ''look it up''\<rparr> ''run-1'' fresh_core)))) \<and>
   truthy (PStr ''d2'') \<and>
   (let s2 = snd (store_decision ''run-1'' (PStr ''d2'')
                (snd (store_decision ''run-1'' (PStr ''d1'') fresh_core)))
    in map_of (active_decisions s2) ''run-1'' = Some (PStr ''d2'') \<and>
       fst (take_decision ''run-1'' s2) = PStr ''d2'' \<and>
       fst (take_decision ''run-1'' (snd (take_decision ''run-1'' s2))) = PNone)"
proof -
  have a: "distinct (map fst (active_decisions fresh_core))" by (simp add: fresh_core_def)
  have t: "truthy (PStr ''d2'')" by simp
  note w = active_table_one_entry_per_key
    [where s = fresh_core and k = "''run-1''" and E = numbering and H = plain_host and n = 3
       and action = "\<lparr>tool = ''search'', tool_input = PStr ''x'', log = ''look it up''\<rparr>"
       and ?d1.0 = "PStr ''d1''" and ?d2.0 = "PStr ''d2''"]
  note w1 = w [THEN conjunct1, THEN mp, OF a, THEN conjunct2, THEN conjunct2, THEN conjunct1]
  note w2 = w [THEN conjunct2, THEN mp, OF t]
  show ?thesis using a w1 t w2 by - (intro conjI; assumption)
qed

subsection \<open>What reaches the host\<close>

lemma transition_decision_returns: "\<exists>s'. transition_decision E d st res s = (Returns (), s')"
  by (simp add: transition_decision_eq)

lemma propose_then_store_returns:
  "\<exists>s'. and_then (log_decision E A ty act ctx ref s) (store_decision k) = (Returns (), s')"
proof -
  obtain r s1 where "log_decision E A ty act ctx ref s = (Returns r, s1)"
    using log_decision_returns [of E A ty act ctx ref s] by blast
  then show ?thesis by (simp add: and_then_def store_decision_def)
qed

lemma on_tool_end_returns: "\<exists>s'. on_tool_end E out k s = (Returns (), s')"
  by (simp add: on_tool_end_def Let_def split_beta transition_decision_eq)

lemma on_tool_error_returns:
  "py_str H err = Returns msg \<Longrightarrow> \<exists>s'. on_tool_error E H err k s = (Returns (), s')"
  by (simp add: on_tool_error_def Let_def split_beta pure_then_def transition_decision_eq)

lemma on_task_end_returns:
  "capped_text H 5000 out = Returns v \<Longrightarrow> \<exists>s'. on_task_end E H task out s = (Returns (), s')"
  by (simp add: on_task_end_def Let_def split_beta pure_then_def transition_decision_eq)

lemma on_task_error_returns:
  "py_str H err = Returns msg \<Longrightarrow> \<exists>s'. on_task_error E H task err s = (Returns (), s')"
  by (simp add: on_task_error_def Let_def split_beta pure_then_def transition_decision_eq)

lemma on_agent_action_returns:
  "serialize (objects H) n (tool_input action) = Returns i \<Longrightarrow>
   \<exists>s'. on_agent_action E H n action k s = (Returns (), s')"
  by (simp add: on_agent_action_def pure_then_def propose_then_store_returns)

lemma on_tool_start_returns:
  "serialize (objects H) n inputs = Returns i \<Longrightarrow>
   \<exists>s'. on_tool_start E H n ser inp k tags md inputs s = (Returns (), s')"
  by (simp add: on_tool_start_def Let_def pure_then_def propose_then_store_returns)

lemma on_task_start_returns:
  assumes "getattr_default (objects H) agent ''role'' (PStr ''unknown_agent'') = Returns a"
    and "getattr_default (objects H) task ''description'' (PStr []) = Returns d"
    and "py_slice 500 d = Returns d'"
    and "getattr_default (objects H) task ''expected_output'' (PStr []) = Returns x"
    and "py_slice 500 x = Returns x'"
    and "getattr_default (objects H) agent ''goal'' PNone = Returns g"
  shows "\<exists>s'. on_task_start E H task agent s = (Returns (), s')"
  using assms
  by (simp add: on_task_start_def Let_def pure_then_def propose_then_store_returns)

lemma on_tool_use_disabled:
  "\<not> log_tool_calls s \<Longrightarrow> on_tool_use E H n agent name tin tout s = (Returns (), s)"
  by (simp add: on_tool_use_def)

lemma on_tool_use_role_raises:
  "log_tool_calls s \<Longrightarrow>
   getattr_default (objects H) agent ''role'' (PStr ''unknown_agent'') = Raises e \<Longrightarrow>
   on_tool_use E H n agent name tin tout s = (Raises e, s)"
  by (simp add: on_tool_use_def pure_then_def)

lemma on_tool_use_input_fails:
  assumes "log_tool_calls s"
    and "getattr_default (objects H) agent ''role'' (PStr ''unknown_agent'') = Returns a"
  shows "serialize (objects H) n tin = Raises e \<Longrightarrow>
           on_tool_use E H n agent name tin tout s = (Raises e, s)"
    and "serialize (objects H) n tin = OutOfFuel \<Longrightarrow>
           on_tool_use E H n agent name tin tout s = (OutOfFuel, s)"
  using assms by (simp_all add: on_tool_use_def pure_then_def)

lemma on_tool_use_output_fails:
  assumes "log_tool_calls s"
    and "getattr_default (objects H) agent ''role'' (PStr ''unknown_agent'') = Returns a"
    and "serialize (objects H) n tin = Returns i"
  shows "serialize (objects H) n tout = Raises e \<Longrightarrow>
           on_tool_use E H n agent name tin tout s = (Raises e, s)"
    and "serialize (objects H) n tout = OutOfFuel \<Longrightarrow>
           on_tool_use E H n agent name tin tout s = (OutOfFuel, s)"
  using assms by (simp_all add: on_tool_use_def pure_then_def)

lemma on_tool_use_returns:
  assumes "getattr_default (objects H) agent ''role'' (PStr ''unknown_agent'') = Returns a"
    and "serialize (objects H) n tin = Returns i"
    and "serialize (objects H) n tout = Returns out"
    and "py_slice 2000 out = Returns out'"
  shows "\<exists>s'. on_tool_use E H n agent name tin tout s = (Returns (), s') \<and>
              active_decisions s' = active_decisions s"
proof (cases "log_tool_calls s")
  case False
  then show ?thesis by (simp add: on_tool_use_disabled)
next
  case True
  let ?ctx = "[(''agent_name'', a), (''tool_name'', PStr name), (''tool_input'', i),
               (''tool_output'', out')]"
  obtain r s1 where l: "log_decision E CrewAI ''tool_usage'' (PStr name) ?ctx None s = (r, s1)"
    by (cases "log_decision E CrewAI ''tool_usage'' (PStr name) ?ctx None s")
  obtain d where d: "r = Returns d"
    using log_decision_returns [of E CrewAI "''tool_usage''" "PStr name" ?ctx None s] l by auto
  have f: "active_decisions s1 = active_decisions s"
    using log_decision_frame [of E CrewAI "''tool_usage''" "PStr name" ?ctx None s] l by simp
  have u: "on_tool_use E H n agent name tin tout s =
      (if truthy d then transition_decision E d ''executed'' None s1 else (Returns (), s1))"
    using True assms l d by (simp add: on_tool_use_def pure_then_def and_then_def)
  show ?thesis
  proof (cases "truthy d")
    case True
    with u f show ?thesis
      by (simp add: transition_decision_eq split: option.splits)
  next
    case False
    with u f show ?thesis by simp
  qed
qed

text \<open>
  Claim C3, as amended. No failure of the remote store reaches the host through a hook.
  In each of the hooks \<open>on_tool_use\<close>, \<open>on_task_start\<close>, \<open>on_task_end\<close>,
  \<open>on_task_error\<close> (CrewAI observer) and \<open>on_agent_action\<close>, \<open>on_tool_start\<close>,
  \<open>on_tool_end\<close>, \<open>on_tool_error\<close> (LangChain callback), once the values the hook
  prepares for its calls have been obtained, the hook returns normally whatever the
  store answers. The hooks do not guard that preparation. In \<open>on_tool_use\<close>, when tool
  logging is enabled: an exception raised by reading the agent's \<open>role\<close> passes into the
  host; so does an exception raised by the serializer on the tool input, and one raised
  on the tool output; and when the serializer exhausts its budget on either of them,
  so does the hook. With tool logging disabled \<open>on_tool_use\<close> returns at once.
\<close>

theorem hooks_return_unless_preparation_raises:
  "(\<not> log_tool_calls s \<longrightarrow> on_tool_use E H n agent name tin tout s = (Returns (), s)) \<and>
   (log_tool_calls s \<and>
    getattr_default (objects H) agent ''role'' (PStr ''unknown_agent'') = Raises e \<longrightarrow>
      on_tool_use E H n agent name tin tout s = (Raises e, s)) \<and>
   (log_tool_calls s \<and>
    getattr_default (objects H) agent ''role'' (PStr ''unknown_agent'') = Returns a \<and>
    serialize (objects H) n tin = Raises e \<longrightarrow>
      on_tool_use E H n agent name tin tout s = (Raises e, s)) \<and>
   (log_tool_calls s \<and>
    getattr_default (objects H) agent ''role'' (PStr ''unknown_agent'') = Returns a \<and>
    serialize (objects H) n tin = OutOfFuel \<longrightarrow>
      on_tool_use E H n agent name tin tout s = (OutOfFuel, s)) \<and>
   (log_tool_calls s \<and>
    getattr_default (objects H) agent ''role'' (PStr ''unknown_agent'') = Returns a \<and>
    serialize (objects H) n tin = Returns i \<and>
    serialize (objects H) n tout = Raises e \<longrightarrow>
      on_tool_use E H n agent name tin tout s = (Raises e, s)) \<and>
   (log_tool_calls s \<and>
    getattr_default (objects H) agent ''role'' (PStr ''unknown_agent'') = Returns a \<and>
    serialize (objects H) n tin = Returns i \<and>
    serialize (objects H) n tout = OutOfFuel \<longrightarrow>
      on_tool_use E H n agent name tin tout s = (OutOfFuel, s)) \<and>
   (getattr_default (objects H) agent ''role'' (PStr ''unknown_agent'') = Returns a \<and>
    serialize (objects H) n tin = Returns i \<and>
    serialize (objects H) n tout = Returns out \<and>
    py_slice 2000 out = Returns out' \<longrightarrow>
      (\<exists>s'. on_tool_use E H n agent name tin tout s = (Returns (), s') \<and>
            active_decisions s' = active_decisions s)) \<and>
   (\<exists>s'. on_tool_end E v k s = (Returns (), s')) \<and>
   (py_str H err = Returns msg \<longrightarrow>
      (\<exists>s'. on_tool_error E H err k s = (Returns (), s'))) \<and>
   (serialize (objects H) n (tool_input action) = Returns i \<longrightarrow>
      (\<exists>s'. on_agent_action E H n action k s = (Returns (), s'))) \<and>
   (serialize (objects H) n inputs = Returns i \<longrightarrow>
      (\<exists>s'. on_tool_start E H n ser inp k tags md inputs s = (Returns (), s'))) \<and>
   (capped_text H 5000 v = Returns c \<longrightarrow>
      (\<exists>s'. on_task_end E H task v s = (Returns (), s'))) \<and>
   (py_str H err = Returns msg \<longrightarrow>
      (\<exists>s'. on_task_error E H task err s = (Returns (), s'))) \<and>
   (getattr_default (objects H) agent ''role'' (PStr ''unknown_agent'') = Returns a \<and>
    getattr_default (objects H) task ''description'' (PStr []) = Returns d \<and>
    py_slice 500 d = Returns d' \<and>
    getattr_default (objects H) task ''expected_output'' (PStr []) = Returns x \<and>
    py_slice 500 x = Returns x' \<and>
    getattr_default (objects H) agent ''goal'' PNone = Returns g \<longrightarrow>
      (\<exists>s'. on_task_start E H task agent s = (Returns (), s')))"
proof (intro conjI impI)
  assume "\<not> log_tool_calls s"
  then show "on_tool_use E H n agent name tin tout s = (Returns (), s)"
    by (rule on_tool_use_disabled)
next
  assume "log_tool_calls s \<and>
    getattr_default (objects H) agent ''role'' (PStr ''unknown_agent'') = Raises e"
  then show "on_tool_use E H n agent name tin tout s = (Raises e, s)"
    using on_tool_use_role_raises by blast
next
  assume "log_tool_calls s \<and>
    getattr_default (objects H) agent ''role'' (PStr ''unknown_agent'') = Returns a \<and>
    serialize (objects H) n tin = Raises e"
  then show "on_tool_use E H n agent name tin tout s = (Raises e, s)"
    using on_tool_use_input_fails(1) by blast
next
  assume "log_tool_calls s \<and>
    getattr_default (objects H) agent ''role'' (PStr ''unknown_agent'') = Returns a \<and>
    serialize (objects H) n tin = OutOfFuel"
  then show "on_tool_use E H n agent name tin tout s = (OutOfFuel, s)"
    using on_tool_use_input_fails(2) by blast
next
  assume "log_tool_calls s \<and>
    getattr_default (objects H) agent ''role'' (PStr ''unknown_agent'') = Returns a \<and>
    serialize (objects H) n tin = Returns i \<and>
    serialize (objects H) n tout = Raises e"
  then show "on_tool_use E H n agent name tin tout s = (Raises e, s)"
    using on_tool_use_output_fails(1) by blast
next
  assume "log_tool_calls s \<and>
    getattr_default (objects H) agent ''role'' (PStr ''unknown_agent'') = Returns a \<and>
    serialize (objects H) n tin = Returns i \<and>
    serialize (objects H) n tout = OutOfFuel"
  then show "on_tool_use E H n agent name tin tout s = (OutOfFuel, s)"
    using on_tool_use_output_fails(2) by blast
next
  assume "getattr_default (objects H) agent ''role'' (PStr ''unknown_agent'') = Returns a \<and>
    serialize (objects H) n tin = Returns i \<and>
    serialize (objects H) n tout = Returns out \<and>
    py_slice 2000 out = Returns out'"
  then show "\<exists>s'. on_tool_use E H n agent name tin tout s = (Returns (), s') \<and>
            active_decisions s' = active_decisions s"
    using on_tool_use_returns by blast
next
  show "\<exists>s'. on_tool_end E v k s = (Returns (), s')"
    by (rule on_tool_end_returns)
next
  assume "py_str H err = Returns msg"
  then show "\<exists>s'. on_tool_error E H err k s = (Returns (), s')"
    by (rule on_tool_error_returns)
next
  assume "serialize (objects H) n (tool_input action) = Returns i"
  then show "\<exists>s'. on_agent_action E H n action k s = (Returns (), s')"
    by (rule on_agent_action_returns)
next
  assume "serialize (objects H) n inputs = Returns i"
  then show "\<exists>s'. on_tool_start E H n ser inp k tags md inputs s = (Returns (), s')"
    by (rule on_tool_start_returns)
next
  assume "capped_text H 5000 v = Returns c"
  then show "\<exists>s'. on_task_end E H task v s = (Returns (), s')"
    by (rule on_task_end_returns)
next
  assume "py_str H err = Returns msg"
  then show "\<exists>s'. on_task_error E H task err s = (Returns (), s')"
    by (rule on_task_error_returns)
next
  assume "getattr_default (objects H) agent ''role'' (PStr ''unknown_agent'') = Returns a \<and>
    getattr_default (objects H) task ''description'' (PStr []) = Returns d \<and>
    py_slice 500 d = Returns d' \<and>
    getattr_default (objects H) task ''expected_output'' (PStr []) = Returns x \<and>
    py_slice 500 x = Returns x' \<and>
    getattr_default (objects H) agent ''goal'' PNone = Returns g"
  then show "\<exists>s'. on_task_start E H task agent s = (Returns (), s')"
    using on_task_start_returns by blast
qed

theorem on_tool_use_raises_counterexample:
  "on_tool_use unreachable (plain_host\<lparr>objects := uncallable_heap\<rparr>) 5 PNone ''lookup''
     (PRef 0) (PStr ''ok'') fresh_core = (Raises TypeError, fresh_core)"
  by (simp add: on_tool_use_def pure_then_def fresh_core_def getattr_default_def
      uncallable_heap_def plain_object_def eval_nat_numeral)

lemma on_tool_use_number_output:
  "on_tool_use (accepting (PStr ''d1'')) plain_host 5 PNone ''calculator''
     (PStr ''2+2'') (PInt 4) fresh_core = (Raises TypeError, fresh_core)"
  by (simp add: on_tool_use_def pure_then_def fresh_core_def getattr_default_def
      eval_nat_numeral)

theorem hooks_return_unless_preparation_raises_witness:
  "\<not> log_tool_calls (fresh_core\<lparr>log_tool_calls := False\<rparr>) \<and>
   on_tool_use unreachable plain_host 5 PNone ''calculator'' (PStr ''2+2'') (PStr ''4'')
       (fresh_core\<lparr>log_tool_calls := False\<rparr>)
     = (Returns (), fresh_core\<lparr>log_tool_calls := False\<rparr>) \<and>
   log_tool_calls fresh_core \<and>
   getattr_default (objects (plain_host\<lparr>objects := moody_heap\<rparr>)) (PRef 0) ''role''
       (PStr ''unknown_agent'') = Raises (HostError ''role is not available'') \<and>
   on_tool_use unreachable (plain_host\<lparr>objects := moody_heap\<rparr>) 5 (PRef 0) ''calculator''
       (PStr ''2+2'') (PStr ''4'') fresh_core
     = (Raises (HostError ''role is not available''), fresh_core) \<and>
   serialize (objects (plain_host\<lparr>objects := uncallable_heap\<rparr>)) 5 (PRef 0) = Raises TypeError \<and>
   on_tool_use unreachable (plain_host\<lparr>objects := uncallable_heap\<rparr>) 5 PNone ''calculator''
       (PRef 0) (PStr ''4'') fresh_core
     = (Raises TypeError, fresh_core) \<and>
   on_tool_use unreachable (plain_host\<lparr>objects := uncallable_heap\<rparr>) 5 PNone ''calculator''
       (PStr ''2+2'') (PRef 0) fresh_core
     = (Raises TypeError, fresh_core) \<and>
   serialize (objects (plain_host\<lparr>objects := self_heap\<rparr>)) 5 (PRef 0) = OutOfFuel \<and>
   on_tool_use unreachable (plain_host\<lparr>objects := self_heap\<rparr>) 5 PNone ''calculator''
       (PRef 0) (PStr ''4'') fresh_core
     = (OutOfFuel, fresh_core) \<and>
   on_tool_use unreachable (plain_host\<lparr>objects := self_heap\<rparr>) 5 PNone ''calculator''
       (PStr ''2+2'') (PRef 0) fresh_core
     = (OutOfFuel, fresh_core) \<and>
   (\<exists>s'. on_tool_use unreachable plain_host 5 (PRef 1) ''calculator'' (PStr ''2+2'') (PStr ''4'')
            fresh_core = (Returns (), s') \<and>
         active_decisions s' = active_decisions fresh_core) \<and>
   (\<exists>s'. on_tool_error unreachable plain_host (PStr ''boom'') ''run-1'' fresh_core
            = (Returns (), s')) \<and>
   (\<exists>s'. on_agent_action unreachable plain_host 5
            \<lparr>tool = ''search'', tool_input = PStr ''x'', log = ''look it up''\<rparr> ''run-1'' fresh_core
            = (Returns (), s')) \<and>
   (\<exists>s'. on_tool_start unreachable plain_host 5 [(''name'', PStr ''search'')] ''x'' ''run-1''
            PNone PNone PNone fresh_core = (Returns (), s')) \<and>
   (\<exists>s'. on_task_end unreachable plain_host (PRef 7) (PStr ''done'') fresh_core
            = (Returns (), s')) \<and>
   (\<exists>s'. on_task_error unreachable plain_host (PRef 7) (PStr ''boom'') fresh_core
            = (Returns (), s')) \<and>
   (\<exists>s'. on_task_start unreachable plain_host (PRef 7) (PRef 8) fresh_core = (Returns (), s'))"
proof -
  let ?off = "fresh_core\<lparr>log_tool_calls := False\<rparr>"
  let ?moody = "plain_host\<lparr>objects := moody_heap\<rparr>"
  let ?unc = "plain_host\<lparr>objects := uncallable_heap\<rparr>"
  let ?self = "plain_host\<lparr>objects := self_heap\<rparr>"
  let ?dflt = "PStr ''unknown_agent''"
  have off: "\<not> log_tool_calls ?off" by simp
  have on: "log_tool_calls fresh_core" by (simp add: fresh_core_def)
  have moody: "getattr_default (objects ?moody) (PRef 0) ''role'' ?dflt
                 = Raises (HostError ''role is not available'')"
    by (simp add: getattr_default_def moody_heap_def plain_object_def)
  have none: "getattr_default (objects h) PNone ''role'' ?dflt = Returns ?dflt" for h
    by (simp add: getattr_default_def)
  have str: "serialize (objects h) 5 (PStr t) = Returns (PStr t)" for h t
    by (simp add: eval_nat_numeral)
  have unc: "serialize (objects ?unc) 5 (PRef 0) = Raises TypeError"
    by (simp add: eval_nat_numeral uncallable_heap_def plain_object_def)
  have self: "serialize (objects ?self) 5 (PRef 0) = OutOfFuel"
    by (simp add: eval_nat_numeral self_heap_def plain_object_def)
  have plain: "getattr_default (objects plain_host) (PRef b) nm d = Returns d" for b nm d
    by (simp add: getattr_default_def plain_host_def plain_heap_def plain_object_def)
  have slice: "py_slice 2000 (PStr ''4'') = Returns (PStr ''4'')" by simp
  have slice0: "py_slice 500 (PStr []) = Returns (PStr [])" by simp
  have boom: "py_str plain_host (PStr ''boom'') = Returns ''boom''" by (simp add: py_str_def)
  have ninp: "serialize (objects plain_host) 5 PNone = Returns PNone"
    by (simp add: eval_nat_numeral)
  have act: "serialize (objects plain_host) 5
      (tool_input \<lparr>tool = ''search'', tool_input = PStr ''x'', log = ''look it up''\<rparr>)
      = Returns (PStr ''x'')"
    by (simp add: eval_nat_numeral)
  have cap: "capped_text plain_host 5000 (PStr ''done'') = Returns (PStr ''done'')"
    by (simp add: capped_text_def py_bool_def py_str_def)
  note t = hooks_return_unless_preparation_raises
  note w1 = t [where s = ?off and E = unreachable and H = plain_host and n = 5 and agent = PNone
      and name = "''calculator''" and tin = "PStr ''2+2''" and tout = "PStr ''4''",
      THEN conjunct1, THEN mp, OF off]
  note w2 = t [where s = fresh_core and E = unreachable and H = ?moody and n = 5
      and agent = "PRef 0" and name = "''calculator''" and tin = "PStr ''2+2''"
      and tout = "PStr ''4''" and e = "HostError ''role is not available''",
      THEN conjunct2, THEN conjunct1, THEN mp, OF conjI [OF on moody]]
  note w3 = t [where s = fresh_core and E = unreachable and H = ?unc and n = 5
      and agent = PNone and name = "''calculator''" and tin = "PRef 0"
      and tout = "PStr ''4''" and e = TypeError and a = ?dflt,
      THEN conjunct2, THEN conjunct2, THEN conjunct1, THEN mp,
      OF conjI [OF on conjI [OF none unc]]]
  note w4 = t [where s = fresh_core and E = unreachable and H = ?self and n = 5
      and agent = PNone and name = "''calculator''" and tin = "PRef 0"
      and tout = "PStr ''4''" and a = ?dflt,
      THEN conjunct2, THEN conjunct2, THEN conjunct2, THEN conjunct1, THEN mp,
      OF conjI [OF on conjI [OF none self]]]
  note w5 = t [where s = fresh_core and E = unreachable and H = ?unc and n = 5
      and agent = PNone and name = "''calculator''" and tin = "PStr ''2+2''"
      and tout = "PRef 0" and e = TypeError and a = ?dflt and i = "PStr ''2+2''",
      THEN conjunct2, THEN conjunct2, THEN conjunct2, THEN conjunct2, THEN conjunct1, THEN mp,
      OF conjI [OF on conjI [OF none conjI [OF str unc]]]]
  note w6 = t [where s = fresh_core and E = unreachable and H = ?self and n = 5
      and agent = PNone and name = "''calculator''" and tin = "PStr ''2+2''"
      and tout = "PRef 0" and a = ?dflt and i = "PStr ''2+2''",
      THEN conjunct2, THEN conjunct2, THEN conjunct2, THEN conjunct2, THEN conjunct2,
      THEN conjunct1, THEN mp,
      OF conjI [OF on conjI [OF none conjI [OF str self]]]]
  note r = t [where s = fresh_core and E = unreachable and H = plain_host and n = 5
      and agent = "PRef 8" and name = "''calculator''" and tin = "PStr ''2+2''"
      and tout = "PStr ''4''" and a = ?dflt and i = "PStr ''x''"
      and err = "PStr ''boom''" and msg = "''boom''" and k = "''run-1''"
      and action = "\<lparr>tool = ''search'', tool_input = PStr ''x'', log = ''look it up''\<rparr>"
      and inputs = "PStr ''x''" and ser = "[(''name'', PStr ''search'')]" and inp = "''x''"
      and tags = PNone and md = PNone
      and v = "PStr ''done''" and c = "PStr ''done''" and task = "PRef 7"
      and d = "PStr []" and d' = "PStr []" and x = "PStr []" and x' = "PStr []" and g = PNone,
      THEN conjunct2, THEN conjunct2, THEN conjunct2, THEN conjunct2, THEN conjunct2,
      THEN conjunct2]
  note w7 = t [where s = fresh_core and E = unreachable and H = plain_host and n = 5
      and agent = "PRef 1" and name = "''calculator''" and tin = "PStr ''2+2''"
      and tout = "PStr ''4''" and a = ?dflt and i = "PStr ''2+2''" and out = "PStr ''4''"
      and out' = "PStr ''4''",
      THEN conjunct2, THEN conjunct2, THEN conjunct2, THEN conjunct2, THEN conjunct2,
      THEN conjunct2, THEN conjunct1, THEN mp,
      OF conjI [OF plain conjI [OF str conjI [OF str slice]]]]
  note w9 = r [THEN conjunct2, THEN conjunct2, THEN conjunct1, THEN mp, OF boom]
  note w10 = r [THEN conjunct2, THEN conjunct2, THEN conjunct2, THEN conjunct1, THEN mp, OF act]
  note w11 = t [where s = fresh_core and E = unreachable and H = plain_host and n = 5
      and inputs = PNone and i = PNone and ser = "[(''name'', PStr ''search'')]" and inp = "''x''"
      and k = "''run-1''" and tags = PNone and md = PNone,
      THEN conjunct2, THEN conjunct2, THEN conjunct2, THEN conjunct2, THEN conjunct2,
      THEN conjunct2, THEN conjunct2, THEN conjunct2, THEN conjunct2, THEN conjunct2,
      THEN conjunct1, THEN mp, OF ninp]
  note r12 = r [THEN conjunct2, THEN conjunct2, THEN conjunct2, THEN conjunct2, THEN conjunct2]
  note w12 = r12 [THEN conjunct1, THEN mp, OF cap]
  note w13 = r12 [THEN conjunct2, THEN conjunct1, THEN mp, OF boom]
  note w14 = r12 [THEN conjunct2, THEN conjunct2, THEN mp,
      OF conjI [OF plain conjI [OF plain conjI [OF slice0 conjI [OF plain conjI [OF slice0 plain]]]]]]
  show ?thesis
    using off w1 on moody w2 unc w3 w5 self w4 w6 w7 w9 w10 w11 w12 w13 w14
    by - (intro conjI; assumption)
qed


end
